theory Spec2Isabelle
  imports Main "HOL-Library.Sublist" "HOL-Library.Stream"
begin

section \<open>Python values used by the storage node\<close>

text \<open>
  A byte string is a list of characters (bytes).  A text string (\<open>str\<close>) is represented
  by its UTF-8 encoding, so that \<open>data.decode()\<close> checks that the bytes are well-formed
  UTF-8 and returns them, and \<open>bytes(text, "utf-8")\<close> returns the text as it is.  The
  text operations of the source (splitting at \<open><>\<close>, the base name after the last slash,
  concatenation) act on the encoding as they act on the text, the separators being ASCII.
\<close>

type_synonym bytes = string

text \<open>A raised exception: its class name and the text \<open>str(e)\<close> gives.\<close>

datatype exn = PyExn string string

fun str_exn :: "exn \<Rightarrow> string" where
  "str_exn (PyExn cls msg) = msg"

text \<open>A value that is either a \<open>str\<close> or \<open>None\<close> (what a handler may return).\<close>

datatype pyval = PyStr string | PyNone

subsection \<open>Decoding UTF-8\<close>

text \<open>
  \<open>utf8_seq_len\<close> is the length of the well-formed UTF-8 sequence at the head of a list
  of byte values, or 0 when there is none: no overlong forms, no surrogates, nothing
  above U+10FFFF, as the strict decoder of \<open>bytes.decode()\<close> demands.
\<close>

definition cont_byte :: "nat \<Rightarrow> bool" where
  "cont_byte b = (128 \<le> b \<and> b \<le> 191)"

fun utf8_seq_len :: "nat list \<Rightarrow> nat" where
  "utf8_seq_len [] = 0"
| "utf8_seq_len (a # bs) =
     (if a < 128 then 1
      else if 194 \<le> a \<and> a \<le> 223 then
        (case bs of
           b # _ \<Rightarrow> if cont_byte b then 2 else 0
         | _ \<Rightarrow> 0)
      else if 224 \<le> a \<and> a \<le> 239 then
        (case bs of
           b # c # _ \<Rightarrow>
             if (if a = 224 then 160 \<le> b \<and> b \<le> 191
                 else if a = 237 then 128 \<le> b \<and> b \<le> 159
                 else cont_byte b) \<and> cont_byte c
             then 3 else 0
         | _ \<Rightarrow> 0)
      else if 240 \<le> a \<and> a \<le> 244 then
        (case bs of
           b # c # d # _ \<Rightarrow>
             if (if a = 240 then 144 \<le> b \<and> b \<le> 191
                 else if a = 244 then 128 \<le> b \<and> b \<le> 143
                 else cont_byte b) \<and> cont_byte c \<and> cont_byte d
             then 4 else 0
         | _ \<Rightarrow> 0)
      else 0)"

function utf8_valid :: "nat list \<Rightarrow> bool" where
  "utf8_valid bs =
     (if bs = [] then True
      else if utf8_seq_len bs = 0 then False
      else utf8_valid (drop (utf8_seq_len bs) bs))"
  by pat_completeness auto
termination
  by (relation "measure length") auto

declare utf8_valid.simps [simp del]

text \<open>
  \<open>data.decode()\<close>.  (The message of Python's \<open>UnicodeDecodeError\<close> also names the
  offending byte and its position.)
\<close>

definition decode_utf8 :: "bytes \<Rightarrow> exn + string" where
  "decode_utf8 data =
     (if utf8_valid (map of_char data) then Inr data
      else Inl (PyExn ''UnicodeDecodeError'' ''utf-8 codec cannot decode the data''))"

subsection \<open>String operations\<close>

text \<open>
  \<open>s.split(sep)\<close> for a non-empty separator: cut at the leftmost occurrence of
  \<open>sep\<close>, continue after it.  The result is never empty.  (Python raises
  \<open>ValueError\<close> for an empty separator; every call in the source passes a literal
  non-empty one, and the model does not cut at all for an empty separator.)
\<close>

function py_split :: "string \<Rightarrow> string \<Rightarrow> string list" where
  "py_split sep [] = [[]]"
| "py_split sep (c # cs) =
     (if sep \<noteq> [] \<and> prefix sep (c # cs)
      then [] # py_split sep (drop (length sep) (c # cs))
      else (case py_split sep cs of
              [] \<Rightarrow> [[c]]
            | p # ps \<Rightarrow> (c # p) # ps))"
  by pat_completeness auto
termination
  by (relation "measure (\<lambda>(sep, s). length s)") (auto simp: neq_Nil_conv)

declare py_split.simps [simp del]

text \<open>\<open>s.replace('.', '_')\<close>: a single-character replacement.\<close>

definition replace_char :: "char \<Rightarrow> char \<Rightarrow> string \<Rightarrow> string" where
  "replace_char old new s = map (\<lambda>c. if c = old then new else c) s"

text \<open>Decimal rendering of a non-negative integer, as \<open>str(n)\<close> and f-strings do.\<close>

definition digit_char :: "nat \<Rightarrow> char" where
  "digit_char d = char_of (48 + d)"

fun str_nat :: "nat \<Rightarrow> string" where
  "str_nat n = (if n < 10 then [digit_char n] else str_nat (n div 10) @ [digit_char (n mod 10)])"

declare str_nat.simps [simp del]

text \<open>
  \<open>int(s)\<close> on text (CPython 3.11, \<open>PyLong_FromUnicodeObject\<close>).  Text that is not
  ASCII is first rewritten: a white-space character becomes a space, a decimal digit of
  any script becomes its ASCII digit, and at the first other character above U+007E the
  text is cut and ends in \<open>?\<close>.  The tables are those of Unicode 14.0; every script has
  its ten digits in a row, so the table of digits lists the zeros.
\<close>

definition decimal_zeros :: "nat list" where
  "decimal_zeros =
    [48, 1632, 1776, 1984, 2406, 2534, 2662, 2790, 2918, 3046, 3174, 3302, 3430, 3558,
     3664, 3792, 3872, 4160, 4240, 6112, 6160, 6470, 6608, 6784, 6800, 6992, 7088,
     7232, 7248, 42528, 43216, 43264, 43472, 43504, 43600, 44016, 65296, 66720, 68912,
     69734, 69872, 69942, 70096, 70384, 70736, 70864, 71248, 71360, 71472, 71904,
     72016, 72784, 73040, 73120, 92768, 92864, 93008, 120782, 120792, 120802, 120812,
     120822, 123200, 123632, 125264, 130032]"

definition unicode_decimal :: "nat \<Rightarrow> nat option" where
  "unicode_decimal cp =
     (case filter (\<lambda>z. z \<le> cp \<and> cp < z + 10) decimal_zeros of
        [] \<Rightarrow> None
      | z # zs \<Rightarrow> Some (cp - z))"

definition unicode_space :: "nat \<Rightarrow> bool" where
  "unicode_space cp =
     (9 \<le> cp \<and> cp \<le> 13 \<or> 28 \<le> cp \<and> cp \<le> 32 \<or> 8192 \<le> cp \<and> cp \<le> 8202 \<or>
      cp \<in> set [133, 160, 5760, 8232, 8233, 8239, 8287, 12288])"

text \<open>The code point of one well-formed UTF-8 sequence, and the code points of a text.\<close>

fun code_point :: "nat list \<Rightarrow> nat" where
  "code_point [a] = a"
| "code_point [a, b] = (a - 192) * 64 + (b - 128)"
| "code_point [a, b, c] = (a - 224) * 4096 + (b - 128) * 64 + (c - 128)"
| "code_point [a, b, c, d] = (a - 240) * 262144 + (b - 128) * 4096 + (c - 128) * 64 + (d - 128)"
| "code_point _ = 0"

function code_points :: "nat list \<Rightarrow> nat list" where
  "code_points bs =
     (if bs = [] then []
      else if utf8_seq_len bs = 0 then []
      else code_point (take (utf8_seq_len bs) bs) # code_points (drop (utf8_seq_len bs) bs))"
  by pat_completeness auto
termination
  by (relation "measure length") auto

declare code_points.simps [simp del]

fun transform_decimal_and_space :: "nat list \<Rightarrow> string" where
  "transform_decimal_and_space [] = []"
| "transform_decimal_and_space (cp # cps) =
     (if cp < 127 then char_of cp # transform_decimal_and_space cps
      else if unicode_space cp then CHR '' '' # transform_decimal_and_space cps
      else (case unicode_decimal cp of
              Some d \<Rightarrow> digit_char d # transform_decimal_and_space cps
            | None \<Rightarrow> ''?''))"

text \<open>
  Then \<open>PyLong_FromString\<close> reads the ASCII text: white space (the space and the
  characters 9 to 13) is skipped, one sign is allowed, the digits may be grouped by single
  underscores, more than 4300 digits are refused, and only white space may follow.
  Anything else raises \<open>ValueError\<close>.  (The message quotes the text with \<open>repr\<close>,
  which the model writes between two quotes as it is.)
\<close>

definition is_digit :: "char \<Rightarrow> bool" where
  "is_digit c = ((48::nat) \<le> of_char c \<and> of_char c \<le> (57::nat))"

definition digit_val :: "char \<Rightarrow> nat" where
  "digit_val c = of_char c - 48"

definition is_space :: "char \<Rightarrow> bool" where
  "is_space c = (c = CHR '' '' \<or> (9::nat) \<le> of_char c \<and> of_char c \<le> (13::nat))"

definition digit_or_underscore :: "char \<Rightarrow> bool" where
  "digit_or_underscore c = (is_digit c \<or> c = CHR ''_'')"

fun double_underscore :: "string \<Rightarrow> bool" where
  "double_underscore (c # d # ds) = (c = CHR ''_'' \<and> d = CHR ''_'' \<or> double_underscore (d # ds))"
| "double_underscore ds = False"

definition decimal_value :: "string \<Rightarrow> nat" where
  "decimal_value ds = foldl (\<lambda>n c. 10 * n + digit_val c) 0 ds"

definition int_error :: "string \<Rightarrow> exn" where
  "int_error s = PyExn ''ValueError'' (''invalid literal for int() with base 10: '' @ [CHR 39] @ s @ [CHR 39])"

definition int_max_str_digits :: nat where
  "int_max_str_digits = 4300"

definition int_limit_error :: "nat \<Rightarrow> exn" where
  "int_limit_error digits =
     PyExn ''ValueError'' (''Exceeds the limit (4300 digits) for integer string conversion: value has ''
       @ str_nat digits @ '' digits; use sys.set_int_max_str_digits() to increase the limit'')"

definition py_int :: "string \<Rightarrow> exn + int" where
  "py_int s =
     (let buffer = (if list_all (\<lambda>c. (of_char c :: nat) < 128) s then s
                    else transform_decimal_and_space (code_points (map of_char s)));
          t = dropWhile is_space buffer;
          (neg, body) = (case t of
                           [] \<Rightarrow> (False, [])
                         | c # cs \<Rightarrow> if c = CHR ''-'' then (True, cs)
                                     else if c = CHR ''+'' then (False, cs)
                                     else (False, t));
          scan = takeWhile digit_or_underscore body;
          rest = dropWhile digit_or_underscore body;
          digits = filter is_digit scan
      in if scan = [] \<or> hd scan = CHR ''_'' \<or> last scan = CHR ''_'' \<or> double_underscore scan
         then Inl (int_error s)
         else if int_max_str_digits < length digits
         then Inl (int_limit_error (length digits))
         else if dropWhile is_space rest \<noteq> []
         then Inl (int_error s)
         else Inr (if neg then - int (decimal_value digits) else int (decimal_value digits)))"

text \<open>\<open>os.path.basename\<close> (POSIX): what follows the last slash.\<close>

definition basename :: "string \<Rightarrow> string" where
  "basename p = rev (takeWhile (\<lambda>c. c \<noteq> CHR ''/'') (rev p))"

text \<open>
  \<open>os.path.dirname\<close> (POSIX): what precedes the last slash, that slash included, and
  then without its trailing slashes unless it consists of slashes only.
\<close>

definition dirname :: "string \<Rightarrow> string" where
  "dirname p =
     (let head = rev (dropWhile (\<lambda>c. c \<noteq> CHR ''/'') (rev p))
      in if head \<noteq> [] \<and> \<not> list_all (\<lambda>c. c = CHR ''/'') head
         then rev (dropWhile (\<lambda>c. c = CHR ''/'') (rev head))
         else head)"

section \<open>Node identity: utilities.py\<close>

text \<open>
  \<^verbatim>\<open>
  def get_sn_table_name_from_ip(ip_addr):
      # 0.0.0.0:5000 -> sn__0_0_0_0__5000
      ip, port = ip_addr.split(':')
      ip = ip.replace('.', '_')
      return f"sn__{ip}__{port}"
  \<close>
  The tuple unpacking raises \<open>ValueError\<close> unless the split has exactly two parts.
\<close>

definition unpack_error :: "nat \<Rightarrow> nat \<Rightarrow> exn" where
  "unpack_error expected got =
     (if got < expected
      then PyExn ''ValueError'' (''not enough values to unpack (expected '' @ str_nat expected
             @ '', got '' @ str_nat got @ '')'')
      else PyExn ''ValueError'' (''too many values to unpack (expected '' @ str_nat expected @ '')''))"

definition get_sn_table_name_from_ip :: "string \<Rightarrow> exn + string" where
  "get_sn_table_name_from_ip ip_addr =
     (case py_split '':'' ip_addr of
        [ip, port] \<Rightarrow> Inr (''sn__'' @ replace_char CHR ''.'' CHR ''_'' ip @ ''__'' @ port)
      | parts \<Rightarrow> Inl (unpack_error 2 (length parts)))"

text \<open>
  \<^verbatim>\<open>
  def get_ip_from_sn_table_name(table_name):
      # sn__0_0_0_0__5000 -> 0.0.0.0:5000
      ip_addr = table_name.split('__')[1:]
      return f"{ip_addr[0]}:{ip_addr[1]}"
  \<close>
  The slice \<open>[1:]\<close> drops the first part; indexing a missing element raises
  \<open>IndexError\<close>.
\<close>

definition get_ip_from_sn_table_name :: "string \<Rightarrow> exn + string" where
  "get_ip_from_sn_table_name table_name =
     (case drop 1 (py_split ''__'' table_name) of
        a # b # rest \<Rightarrow> Inr (a @ '':'' @ b)
      | _ \<Rightarrow> Inl (PyExn ''IndexError'' ''list index out of range''))"

section \<open>The environment: file system and socket\<close>

text \<open>
  The file system maps a path, as the program writes it, to a regular file with its
  content or to a directory.  Paths are not normalised, symbolic links, permissions and
  a full disk are not modelled; the final components \<open>.\<close> and \<open>..\<close> and a trailing
  slash denote directories.  The directories of the file system are taken to have valid
  names: what the program itself chooses (the storage directory, named after the
  server's own address) is not checked, what the peer chooses (the file name) is.
\<close>

datatype fs_entry = File bytes | Dir

type_synonym filesystem = "string \<Rightarrow> fs_entry option"

definition path_exists :: "filesystem \<Rightarrow> string \<Rightarrow> bool" where
  "path_exists fs p = (fs p \<noteq> None)"

text \<open>
  The text of an \<open>OSError\<close>.  (Python renders the file name with \<open>repr\<close>; the
  model writes it between two quotes as it is, which is the same for a name of letters,
  digits and the usual punctuation.)
\<close>

definition os_error :: "string \<Rightarrow> nat \<Rightarrow> string \<Rightarrow> string \<Rightarrow> exn" where
  "os_error cls errno strerror filename =
     PyExn cls (''[Errno '' @ str_nat errno @ ''] '' @ strerror @ '': '' @ [CHR 39] @ filename @ [CHR 39])"

text \<open>
  \<open>os.makedirs(p)\<close>: creates the directory; fails when it exists or is empty.  (The
  directories above \<open>p\<close>, which \<open>os.makedirs\<close> creates too when they are missing,
  are not recorded.)
\<close>

definition makedirs :: "string \<Rightarrow> filesystem \<Rightarrow> exn + filesystem" where
  "makedirs p fs =
     (if p = [] then Inl (os_error ''FileNotFoundError'' 2 ''No such file or directory'' p)
      else if path_exists fs p then Inl (os_error ''FileExistsError'' 17 ''File exists'' p)
      else Inr (fs(p \<mapsto> Dir)))"

text \<open>
  \<open>open(p, "wb")\<close> on Linux.  A NUL character in the file name is refused by Python
  itself; an empty path does not exist, and a path that ends in a slash denotes a
  directory; then the directory of \<open>p\<close> must be a directory (the current directory
  when \<open>dirname p\<close> is empty), the file name must hold at most \<open>NAME_MAX\<close> bytes (255
  on the usual file systems), and \<open>p\<close> must not denote a directory.  On success the
  file exists and is empty.
\<close>

definition NAME_MAX :: nat where
  "NAME_MAX = 255"

definition open_wb :: "string \<Rightarrow> filesystem \<Rightarrow> exn + filesystem" where
  "open_wb p fs =
     (if CHR 0x00 \<in> set (basename p)
        then Inl (PyExn ''ValueError'' ''embedded null byte'')
      else if p = []
        then Inl (os_error ''FileNotFoundError'' 2 ''No such file or directory'' p)
      else if basename p = []
        then Inl (os_error ''IsADirectoryError'' 21 ''Is a directory'' p)
      else if dirname p \<noteq> [] \<and> fs (dirname p) = None
        then Inl (os_error ''FileNotFoundError'' 2 ''No such file or directory'' p)
      else if dirname p \<noteq> [] \<and> fs (dirname p) \<noteq> Some Dir
        then Inl (os_error ''NotADirectoryError'' 20 ''Not a directory'' p)
      else if NAME_MAX < length (basename p)
        then Inl (os_error ''OSError'' 36 ''File name too long'' p)
      else if basename p = ''.'' \<or> basename p = ''..'' \<or> fs p = Some Dir
        then Inl (os_error ''IsADirectoryError'' 21 ''Is a directory'' p)
      else Inr (fs(p \<mapsto> File [])))"

text \<open>\<open>f.write(data)\<close> on the file opened at \<open>p\<close>: appends.\<close>

definition write_file :: "string \<Rightarrow> bytes \<Rightarrow> filesystem \<Rightarrow> filesystem" where
  "write_file p data fs =
     (case fs p of
        Some (File old) \<Rightarrow> fs(p \<mapsto> File (old @ data))
      | _ \<Rightarrow> fs)"

text \<open>\<open>open(p, "rb")\<close> and reading the file to its end.\<close>

definition read_file :: "string \<Rightarrow> filesystem \<Rightarrow> exn + bytes" where
  "read_file p fs =
     (case fs p of
        None \<Rightarrow> Inl (os_error ''FileNotFoundError'' 2 ''No such file or directory'' p)
      | Some Dir \<Rightarrow> Inl (os_error ''IsADirectoryError'' 21 ''Is a directory'' p)
      | Some (File content) \<Rightarrow> Inr content)"

text \<open>
  One end of a connection together with the machine it runs on.  \<open>inbound\<close> holds the
  data still to arrive, piece by piece and possibly for ever; an empty piece is the
  peer having closed.  \<open>recv(bufsize)\<close> returns at most \<open>bufsize\<close> bytes of the first
  piece and leaves the rest of it for the next call.  \<open>outbound\<close> holds the arguments of
  the \<open>sendall\<close> calls made so far, and \<open>recv_calls\<close> counts the \<open>recv\<close> calls made.
  \<open>recv\<close>, \<open>write\<close> and \<open>sendall\<close> themselves do not fail in this model.
\<close>

record endpoint =
  storage :: filesystem
  inbound :: "bytes stream"
  outbound :: "bytes list"
  recv_calls :: nat

definition recv :: "nat \<Rightarrow> endpoint \<Rightarrow> bytes \<times> endpoint" where
  "recv bufsize st =
     (take bufsize (shd (inbound st)),
      st\<lparr>inbound := (if length (shd (inbound st)) \<le> bufsize then stl (inbound st)
                     else drop bufsize (shd (inbound st)) ## stl (inbound st)),
         recv_calls := Suc (recv_calls st)\<rparr>)"

definition sendall :: "bytes \<Rightarrow> endpoint \<Rightarrow> endpoint" where
  "sendall data st = st\<lparr>outbound := outbound st @ [data]\<rparr>"

section \<open>Integrity check: utilities.py\<close>

text \<open>
  \<open>hashlib.md5\<close> is a library function: the digest is a parameter \<open>md5\<close>, the function
  from a file's content to its hexadecimal digest.  \<open>calc_file_md5\<close> feeds the file to it
  in blocks of 4096 bytes, which gives the digest of the whole content.
\<close>

definition calc_file_md5 :: "(bytes \<Rightarrow> string) \<Rightarrow> filesystem \<Rightarrow> string \<Rightarrow> exn + string" where
  "calc_file_md5 md5 fs filepath =
     (case read_file filepath fs of
        Inl e \<Rightarrow> Inl e
      | Inr content \<Rightarrow> Inr (md5 content))"

text \<open>
  \<^verbatim>\<open>
  def is_file_integrity_matched(filepath, recvd_hash):
      new_hash = calc_file_md5(filepath)
      if new_hash != recvd_hash:
          raise Exception("File integrity check failed!")
      return True
  \<close>
\<close>

definition is_file_integrity_matched ::
    "(bytes \<Rightarrow> string) \<Rightarrow> filesystem \<Rightarrow> string \<Rightarrow> string \<Rightarrow> exn + bool" where
  "is_file_integrity_matched md5 fs filepath recvd_hash =
     (case calc_file_md5 md5 fs filepath of
        Inl e \<Rightarrow> Inl e
      | Inr new_hash \<Rightarrow>
          if new_hash \<noteq> recvd_hash then Inl (PyExn ''Exception'' ''File integrity check failed!'')
          else Inr True)"

section \<open>The storage node: storage_node.py\<close>

definition BUFFER_SIZE :: nat where "BUFFER_SIZE = 1024"
definition SEPARATOR :: string where "SEPARATOR = ''<>''"
definition GET_REQUEST :: string where "GET_REQUEST = ''<GET_REQUEST>''"
definition PUT_REQUEST :: string where "PUT_REQUEST = ''<PUT_REQUEST>''"
definition STATUS_REQUEST :: string where "STATUS_REQUEST = ''<STATUS_REQUEST>''"
definition SERVER_AVAILABLE_CODE :: string where "SERVER_AVAILABLE_CODE = ''200''"
definition TRANSFER_SUCCESSFUL_CODE :: string where "TRANSFER_SUCCESSFUL_CODE = ''TRANSFER_SUCCESSFUL''"
definition NOTIFY_SUCCESS :: string where "NOTIFY_SUCCESS = ''<NOTIFY_SUCCESS>''"
definition NOTIFY_FAILURE :: string where "NOTIFY_FAILURE = ''<NOTIFY_FAILURE>''"

text \<open>\<open>setup\<close>: \<open>self.STORAGE_DIR = f'storage_{self.HOST}_{self.PORT}'\<close>.\<close>

definition STORAGE_DIR :: "string \<Rightarrow> nat \<Rightarrow> string" where
  "STORAGE_DIR host port = ''storage_'' @ host @ ''_'' @ str_nat port"

text \<open>
  The receiving loop, which \<open>do_put_handler\<close> (lines 89 to 103) and
  \<open>utilities.receive_file_from_sock\<close> (lines 153 to 167) both contain word for word:
  \<^verbatim>\<open>
  for _ in progress:                      # progress = tqdm.tqdm(range(file_size), ...)
      bytes_read = sock.recv(BUFFER_SIZE)
      if not bytes_read:
          break
      total_bytes_read += len(bytes_read)
      f.write(bytes_read)
      progress.update(len(bytes_read))
      if total_bytes_read == file_size:
          break
  \<close>
  The first argument is the number of iterations \<open>range(file_size)\<close> still offers.
  The result is \<open>total_bytes_read\<close> and the state after the loop.
\<close>

fun receive_loop :: "nat \<Rightarrow> string \<Rightarrow> int \<Rightarrow> nat \<Rightarrow> endpoint \<Rightarrow> nat \<times> endpoint" where
  "receive_loop 0 filepath file_size total_bytes_read st = (total_bytes_read, st)"
| "receive_loop (Suc k) filepath file_size total_bytes_read st =
     (case recv BUFFER_SIZE st of
        (bytes_read, st1) \<Rightarrow>
          if bytes_read = [] then (total_bytes_read, st1)
          else let total' = total_bytes_read + length bytes_read;
                   st2 = st1\<lparr>storage := write_file filepath bytes_read (storage st1)\<rparr>
               in if int total' = file_size then (total', st2)
                  else receive_loop k filepath file_size total' st2)"

text \<open>
  The results of \<open>j\<close> successive calls of \<open>recv(BUFFER_SIZE)\<close> and the state after them:
  what a loop that has made \<open>j\<close> calls has taken from the socket.
\<close>

fun recv_results :: "nat \<Rightarrow> endpoint \<Rightarrow> bytes list \<times> endpoint" where
  "recv_results 0 st = ([], st)"
| "recv_results (Suc j) st =
     (case recv BUFFER_SIZE st of
        (bytes_read, st1) \<Rightarrow>
          (case recv_results j st1 of
             (later, st2) \<Rightarrow> (bytes_read # later, st2)))"

text \<open>
  \<open>tqdm.tqdm(range(file_size), ...)\<close> takes \<open>len\<close> of the range, which raises
  \<open>OverflowError\<close> when the length is above \<open>sys.maxsize\<close> (64 bit).
\<close>

definition ssize_t_max :: int where
  "ssize_t_max = 9223372036854775807"

definition tqdm_range :: "int \<Rightarrow> exn + nat" where
  "tqdm_range file_size =
     (if ssize_t_max < file_size
      then Inl (PyExn ''OverflowError'' ''Python int too large to convert to C ssize_t'')
      else Inr (nat file_size))"

text \<open>
  The body of the \<open>try\<close> block of \<open>do_put_handler\<close>: \<open>Inl\<close> is an exception raised in
  it, \<open>Inr\<close> the value of \<open>is_file_valid\<close>.
\<close>

definition put_transfer ::
    "(bytes \<Rightarrow> string) \<Rightarrow> string \<Rightarrow> string \<Rightarrow> int \<Rightarrow> string \<Rightarrow> endpoint \<Rightarrow> (exn + bool) \<times> endpoint" where
  "put_transfer md5 storage_dir filename file_size file_hash st =
     (case tqdm_range file_size of
        Inl e \<Rightarrow> (Inl e, st)
      | Inr progress \<Rightarrow>
     (case (if \<not> path_exists (storage st) storage_dir then makedirs storage_dir (storage st)
            else Inr (storage st)) of
        Inl e \<Rightarrow> (Inl e, st)
      | Inr fs1 \<Rightarrow>
          let storage_filepath = storage_dir @ ''/'' @ filename
          in (case open_wb storage_filepath fs1 of
                Inl e \<Rightarrow> (Inl e, st\<lparr>storage := fs1\<rparr>)
              | Inr fs2 \<Rightarrow>
                  (case receive_loop progress storage_filepath file_size 0 (st\<lparr>storage := fs2\<rparr>) of
                     (total_bytes_read, st3) \<Rightarrow>
                       (is_file_integrity_matched md5 (storage st3) storage_filepath file_hash, st3)))))"

text \<open>
  \<open>do_put_handler\<close>.  The unpacking of the argument list and \<open>int(file_size)\<close> stand
  before the \<open>try\<close>: what they raise leaves the handler (\<open>Inl\<close>).  What the \<open>try\<close>
  block raises becomes the response \<open>str(e)\<close>.  \<open>response_message\<close> is assigned only
  under \<open>if is_file_valid\<close>.
\<close>

definition do_put_handler ::
    "(bytes \<Rightarrow> string) \<Rightarrow> string \<Rightarrow> string list \<Rightarrow> endpoint \<Rightarrow> (exn + pyval) \<times> endpoint" where
  "do_put_handler md5 storage_dir recvd_info_list st =
     (case recvd_info_list of
        [filename, file_size, file_hash] \<Rightarrow>
          (case py_int file_size of
             Inl e \<Rightarrow> (Inl e, st)
           | Inr declared_size \<Rightarrow>
               (case put_transfer md5 storage_dir (basename filename) declared_size file_hash st of
                  (Inl e, st') \<Rightarrow> (Inr (PyStr (str_exn e)), st')
                | (Inr is_file_valid, st') \<Rightarrow>
                    if is_file_valid then (Inr (PyStr TRANSFER_SUCCESSFUL_CODE), st')
                    else (Inl (PyExn ''UnboundLocalError''
                                 ''cannot access local variable 'response_message' where it is not associated with a value''), st')))
      | _ \<Rightarrow> (Inl (unpack_error 3 (length recvd_info_list)), st))"

text \<open>\<open>do_get_handler\<close> is \<open>pass\<close>: it returns \<open>None\<close>.\<close>

definition do_get_handler :: "string list \<Rightarrow> endpoint \<Rightarrow> (exn + pyval) \<times> endpoint" where
  "do_get_handler recvd_info_list st = (Inr PyNone, st)"

text \<open>
  \<open>handle\<close>: \<open>self.request.recv(BUFFER_SIZE).decode()\<close>, the split, the dispatch on
  the first field, and \<open>self.request.sendall(bytes(response_message, "utf-8"))\<close>, where
  \<open>bytes\<close> raises \<open>TypeError\<close> on \<open>None\<close>.  The first component of the result is the
  exception that leaves \<open>handle\<close>, if any.
\<close>

definition dispatch ::
    "(bytes \<Rightarrow> string) \<Rightarrow> string \<Rightarrow> nat \<Rightarrow> string \<Rightarrow> string list \<Rightarrow> endpoint \<Rightarrow> (exn + pyval) \<times> endpoint" where
  "dispatch md5 host port request_type args st =
     (if request_type = GET_REQUEST then do_get_handler args st
      else if request_type = PUT_REQUEST then do_put_handler md5 (STORAGE_DIR host port) args st
      else if request_type = STATUS_REQUEST then (Inr (PyStr SERVER_AVAILABLE_CODE), st)
      else (Inr (PyStr ''Request type not supported yet!''), st))"

definition handle :: "(bytes \<Rightarrow> string) \<Rightarrow> string \<Rightarrow> nat \<Rightarrow> endpoint \<Rightarrow> exn option \<times> endpoint" where
  "handle md5 host port st =
     (case recv BUFFER_SIZE st of
        (data, st1) \<Rightarrow>
          (case decode_utf8 data of
             Inl e \<Rightarrow> (Some e, st1)
           | Inr received \<Rightarrow>
               (case py_split SEPARATOR received of
                  [] \<Rightarrow> (Some (PyExn ''IndexError'' ''list index out of range''), st1)
                | request_type # args \<Rightarrow>
                    (case dispatch md5 host port request_type args st1 of
                       (Inl e, st2) \<Rightarrow> (Some e, st2)
                     | (Inr PyNone, st2) \<Rightarrow>
                         (Some (PyExn ''TypeError'' ''encoding without a string argument''), st2)
                     | (Inr (PyStr response_message), st2) \<Rightarrow>
                         (None, sendall response_message st2)))))"

section \<open>The client side: utilities.py\<close>

text \<open>
  \<open>receive_file_from_sock\<close>: builds the progress bar over \<open>range(file_size)\<close>, creates
  the directory of the destination when it is missing, opens the destination and runs the
  receiving loop.  Its \<open>except\<close> clause raises the exception again.
\<close>

definition receive_file_from_sock :: "string \<Rightarrow> int \<Rightarrow> endpoint \<Rightarrow> exn option \<times> endpoint" where
  "receive_file_from_sock dest_filepath file_size st =
     (case tqdm_range file_size of
        Inl e \<Rightarrow> (Some e, st)
      | Inr progress \<Rightarrow>
     (let storage_dir = dirname dest_filepath
      in case (if \<not> path_exists (storage st) storage_dir then makedirs storage_dir (storage st)
               else Inr (storage st)) of
           Inl e \<Rightarrow> (Some e, st)
         | Inr fs1 \<Rightarrow>
             (case open_wb dest_filepath fs1 of
                Inl e \<Rightarrow> (Some e, st\<lparr>storage := fs1\<rparr>)
              | Inr fs2 \<Rightarrow>
                  (case receive_loop progress dest_filepath file_size 0 (st\<lparr>storage := fs2\<rparr>) of
                     (total_bytes_read, st3) \<Rightarrow> (None, st3)))))"

text \<open>
  \<open>send_file\<close> returns the pair \<open>(NOTIFY_..., message)\<close>, or the text of the server's
  answer when \<open>want_server_response\<close> is set.  (The size of a file is below
  \<open>sys.maxsize\<close>, so its progress bar is built without error.)
\<close>

datatype send_result = Tuple string string | Text string

text \<open>\<open>os.path.getsize\<close>; the size of a directory is not used: \<open>calc_file_md5\<close> fails on it next.\<close>

definition getsize :: "string \<Rightarrow> filesystem \<Rightarrow> exn + nat" where
  "getsize p fs =
     (case fs p of
        None \<Rightarrow> Inl (os_error ''FileNotFoundError'' 2 ''No such file or directory'' p)
      | Some Dir \<Rightarrow> Inr 0
      | Some (File content) \<Rightarrow> Inr (length content))"

text \<open>
  The sending loop of \<open>send_file\<close>; \<open>rest\<close> is what the file object has not yet read.
  \<^verbatim>\<open>
  for _ in progress:                      # progress = tqdm.tqdm(range(file_size), ...)
      bytes_read = f.read(BUFFER_SIZE)
      total_bytes_read += len(bytes_read)
      if not bytes_read:
          break
      sock.sendall(bytes_read)
      progress.update(len(bytes_read))
      if total_bytes_read == file_size:
          received_response = (NOTIFY_SUCCESS, f"File {src_filepath} sent.")
          break
  \<close>
\<close>

fun send_loop ::
    "nat \<Rightarrow> string \<Rightarrow> bytes \<Rightarrow> nat \<Rightarrow> nat \<Rightarrow> send_result \<Rightarrow> endpoint \<Rightarrow> send_result \<times> endpoint" where
  "send_loop 0 src_filepath rest file_size total_bytes_read received_response st =
     (received_response, st)"
| "send_loop (Suc k) src_filepath rest file_size total_bytes_read received_response st =
     (let bytes_read = take BUFFER_SIZE rest;
          total' = total_bytes_read + length bytes_read
      in if bytes_read = [] then (received_response, st)
         else let st1 = sendall bytes_read st
              in if total' = file_size
                 then (Tuple NOTIFY_SUCCESS (''File '' @ src_filepath @ '' sent.''), st1)
                 else send_loop k src_filepath (drop BUFFER_SIZE rest) file_size total' received_response st1)"

definition send_file ::
    "(bytes \<Rightarrow> string) \<Rightarrow> string \<Rightarrow> bool \<Rightarrow> endpoint \<Rightarrow> (exn + send_result) \<times> endpoint" where
  "send_file md5 src_filepath want_server_response st =
     (case getsize src_filepath (storage st) of
        Inl e \<Rightarrow> (Inl e, st)
      | Inr file_size \<Rightarrow>
          (case calc_file_md5 md5 (storage st) src_filepath of
             Inl e \<Rightarrow> (Inl e, st)
           | Inr file_hash \<Rightarrow>
               let st1 = sendall (PUT_REQUEST @ SEPARATOR @ basename src_filepath @ SEPARATOR
                                    @ str_nat file_size @ SEPARATOR @ file_hash) st
               in (case read_file src_filepath (storage st1) of
                     Inl e \<Rightarrow> (Inl e, st1)
                   | Inr content \<Rightarrow>
                       (case send_loop file_size src_filepath content file_size 0
                               (Tuple NOTIFY_FAILURE ''Operation failed!'') st1 of
                          (received_response, st2) \<Rightarrow>
                            if want_server_response
                            then (case recv BUFFER_SIZE st2 of
                                    (data, st3) \<Rightarrow>
                                      (case decode_utf8 data of
                                         Inl e \<Rightarrow> (Inl e, st3)
                                       | Inr answer \<Rightarrow> (Inr (Text answer), st3)))
                            else (Inr received_response, st2)))))"

text \<open>
  A digest to run the model with at concrete inputs: the sum of the bytes modulo 256,
  as two hexadecimal digits.  The theorems below that quantify over \<open>md5\<close> hold for
  every digest function, \<open>hashlib.md5\<close> included.
\<close>

definition hex_digit :: "nat \<Rightarrow> char" where
  "hex_digit d = (if d < 10 then char_of (48 + d) else char_of (87 + d))"

definition checksum_digest :: "bytes \<Rightarrow> string" where
  "checksum_digest content =
     (let s = sum_list (map of_char content) mod 256
      in [hex_digit (s div 16), hex_digit (s mod 16)])"

section \<open>Properties of the model\<close>

lemmas protocol_defs =
  BUFFER_SIZE_def SEPARATOR_def GET_REQUEST_def PUT_REQUEST_def STATUS_REQUEST_def
  SERVER_AVAILABLE_CODE_def TRANSFER_SUCCESSFUL_CODE_def NOTIFY_SUCCESS_def NOTIFY_FAILURE_def

subsection \<open>The socket\<close>

lemma recv_fields:
  assumes "recv n st = (b, st1)"
  shows "storage st1 = storage st" "outbound st1 = outbound st" "recv_calls st1 = Suc (recv_calls st)"
  using assms by (auto simp: recv_def)


lemma recv_piece:
  "inbound st = c ## s \<Longrightarrow> length c \<le> n \<Longrightarrow>
     recv n st = (c, st\<lparr>inbound := s, recv_calls := Suc (recv_calls st)\<rparr>)"
  by (simp add: recv_def)


lemma recv_results_recv_calls:
  "recv_calls (snd (recv_results j st)) = recv_calls st + j"
proof (induction j arbitrary: st)
  case 0
  then show ?case by simp
next
  case (Suc j)
  obtain b st1 where r: "recv BUFFER_SIZE st = (b, st1)"
    by (cases "recv BUFFER_SIZE st")
  obtain later st2 where m: "recv_results j st1 = (later, st2)"
    by (cases "recv_results j st1")
  from Suc.IH [of st1] m recv_fields(3) [OF r] have "recv_calls st2 = Suc (recv_calls st) + j"
    by simp
  with r m show ?case by simp
qed

subsection \<open>The receiving loop\<close>

lemma write_file_append:
  "write_file p (a @ b) fs = write_file p b (write_file p a fs)"
  by (auto simp: write_file_def split: option.splits fs_entry.splits)

lemma write_file_other: "q \<noteq> p \<Longrightarrow> write_file p d fs q = fs q"
  by (auto simp: write_file_def split: option.splits fs_entry.splits)


lemma write_file_Nil: "write_file p [] fs = fs"
  by (auto simp: write_file_def split: option.splits fs_entry.splits)

lemma write_file_upd:
  "write_file p d (fs(p \<mapsto> File old)) = fs(p \<mapsto> File (old @ d))"
  by (simp add: write_file_def)

text \<open>One turn of the loop, by the result of its \<open>recv\<close>.\<close>

lemma receive_loop_step:
  assumes "recv BUFFER_SIZE st = (b, st1)"
  shows "receive_loop (Suc k) p s t st =
           (if b = [] then (t, st1)
            else if int (t + length b) = s
              then (t + length b, st1\<lparr>storage := write_file p b (storage st1)\<rparr>)
              else receive_loop k p s (t + length b) (st1\<lparr>storage := write_file p b (storage st1)\<rparr>))"
  using assms by (simp add: Let_def)

lemma receive_loop_frame:
  "receive_loop k p s t st = (t', st') \<Longrightarrow>
     outbound st' = outbound st \<and> (\<forall>q. q \<noteq> p \<longrightarrow> storage st' q = storage st q)"
proof (induction k arbitrary: t st)
  case 0
  then show ?case by simp
next
  case (Suc k)
  obtain b st1 where r: "recv BUFFER_SIZE st = (b, st1)"
    by (cases "recv BUFFER_SIZE st")
  note f = recv_fields [OF r]
  let ?st2 = "st1\<lparr>storage := write_file p b (storage st1)\<rparr>"
  show ?case
  proof (cases "b = [] \<or> int (t + length b) = s")
    case True
    with Suc.prems have "st' = st1 \<or> st' = ?st2"
      unfolding receive_loop_step [OF r] by (auto split: if_splits)
    then show ?thesis
      using f by (auto simp: write_file_other)
  next
    case False
    with Suc.prems have "receive_loop k p s (t + length b) ?st2 = (t', st')"
      unfolding receive_loop_step [OF r] by simp
    from Suc.IH [OF this] show ?thesis
      by (simp add: f write_file_other)
  qed
qed

lemma receive_loop_recv_calls:
  "recv_calls (snd (receive_loop k p s t st)) \<le> recv_calls st + k"
proof (induction k arbitrary: t st)
  case 0
  then show ?case by simp
next
  case (Suc k)
  obtain b st1 where r: "recv BUFFER_SIZE st = (b, st1)"
    by (cases "recv BUFFER_SIZE st")
  note f = recv_fields [OF r]
  let ?st2 = "st1\<lparr>storage := write_file p b (storage st1)\<rparr>"
  have "recv_calls (snd (receive_loop k p s (t + length b) ?st2)) \<le> recv_calls ?st2 + k"
    by (rule Suc.IH)
  then show ?case
    unfolding receive_loop_step [OF r] by (simp add: f)
qed


lemma receive_loop_chunks:
  "inbound st = chunks @- rest \<Longrightarrow> \<forall>c\<in>set chunks. c \<noteq> [] \<and> length c \<le> BUFFER_SIZE \<Longrightarrow>
   int (t + length (concat chunks)) < s \<Longrightarrow> length chunks \<le> k \<Longrightarrow>
   receive_loop k p s t st =
     receive_loop (k - length chunks) p s (t + length (concat chunks))
       (st\<lparr>inbound := rest, recv_calls := recv_calls st + length chunks,
           storage := write_file p (concat chunks) (storage st)\<rparr>)"
proof (induction chunks arbitrary: k t st)
  case Nil
  then show ?case by (cases st) (simp add: write_file_Nil)
next
  case (Cons c cs)
  from Cons.prems(4) obtain k' where k: "k = Suc k'" by (cases k) auto
  let ?st1 = "st\<lparr>inbound := cs @- rest, recv_calls := Suc (recv_calls st)\<rparr>"
  let ?st2 = "?st1\<lparr>storage := write_file p c (storage ?st1)\<rparr>"
  have c: "c \<noteq> []" "length c \<le> BUFFER_SIZE" "int (t + length c) \<noteq> s"
    using Cons.prems by auto
  have r: "recv BUFFER_SIZE st = (c, ?st1)"
    using Cons.prems(1) c(2) by (intro recv_piece) simp_all
  have step: "receive_loop k p s t st = receive_loop k' p s (t + length c) ?st2"
    unfolding k receive_loop_step [OF r] using c by simp
  have "receive_loop k' p s (t + length c) ?st2 =
        receive_loop (k' - length cs) p s (t + length c + length (concat cs))
          (?st2\<lparr>inbound := rest, recv_calls := recv_calls ?st2 + length cs,
                 storage := write_file p (concat cs) (storage ?st2)\<rparr>)"
    using Cons.prems by (intro Cons.IH) (auto simp: k)
  with step show ?case
    by (simp add: k write_file_append add.assoc)
qed

lemma length_le_concat: "\<forall>c\<in>set chunks. c \<noteq> [] \<Longrightarrow> length chunks \<le> length (concat chunks)"
proof (induction chunks)
  case Nil
  then show ?case by simp
next
  case (Cons c cs)
  have "length cs \<le> length (concat cs)" using Cons by simp
  moreover have "c \<noteq> []" using Cons.prems by simp
  ultimately show ?case by (cases c) auto
qed

lemma receive_loop_truncated:
  assumes "inbound st = chunks @- ([] ## rest)" "\<forall>c\<in>set chunks. c \<noteq> [] \<and> length c \<le> BUFFER_SIZE"
      and "int (length (concat chunks)) < s"
  shows "receive_loop (nat s) p s 0 st =
           (length (concat chunks),
            st\<lparr>inbound := rest, recv_calls := recv_calls st + Suc (length chunks),
               storage := write_file p (concat chunks) (storage st)\<rparr>)"
proof -
  have ne: "\<forall>c\<in>set chunks. c \<noteq> []" using assms(2) by simp
  have len: "length chunks < nat s"
    using length_le_concat [OF ne] assms(3) by linarith
  then obtain k' where k': "nat s - length chunks = Suc k'"
    by (cases "nat s - length chunks") auto
  let ?st1 = "st\<lparr>inbound := [] ## rest, recv_calls := recv_calls st + length chunks,
              storage := write_file p (concat chunks) (storage st)\<rparr>"
  have "receive_loop (nat s) p s 0 st =
        receive_loop (nat s - length chunks) p s (0 + length (concat chunks)) ?st1"
    using assms len by (intro receive_loop_chunks) auto
  moreover have "recv BUFFER_SIZE ?st1 =
      ([], ?st1\<lparr>inbound := rest, recv_calls := Suc (recv_calls ?st1)\<rparr>)"
    by (intro recv_piece) simp_all
  ultimately show ?thesis
    by (simp add: k' receive_loop_step)
qed

lemma receive_loop_complete:
  assumes "inbound st = chunks @- rest" "\<forall>c\<in>set chunks. c \<noteq> [] \<and> length c \<le> BUFFER_SIZE"
      and "int (length (concat chunks)) = s"
  shows "receive_loop (nat s) p s 0 st =
           (length (concat chunks),
            st\<lparr>inbound := rest, recv_calls := recv_calls st + length chunks,
               storage := write_file p (concat chunks) (storage st)\<rparr>)"
proof (cases chunks rule: rev_cases)
  case Nil
  with assms show ?thesis by (cases st) (simp add: write_file_Nil)
next
  case (snoc cs c)
  have c: "c \<noteq> []" "length c \<le> BUFFER_SIZE" using assms(2) snoc by simp_all
  have ne: "\<forall>c\<in>set cs. c \<noteq> []" using assms(2) snoc by simp
  have "length cs \<le> length (concat cs)"
    using length_le_concat [OF ne] .
  moreover have "0 < length c" using c by simp
  moreover have "nat s = length (concat cs) + length c"
    using assms(3) snoc by auto
  ultimately have len: "length cs < nat s" by linarith
  then obtain k' where k': "nat s - length cs = Suc k'"
    by (cases "nat s - length cs") auto
  let ?st1 = "st\<lparr>inbound := [c] @- rest, recv_calls := recv_calls st + length cs,
              storage := write_file p (concat cs) (storage st)\<rparr>"
  have "receive_loop (nat s) p s 0 st =
        receive_loop (nat s - length cs) p s (0 + length (concat cs)) ?st1"
    using assms len c snoc by (intro receive_loop_chunks) auto
  moreover have "recv BUFFER_SIZE ?st1 =
      (c, ?st1\<lparr>inbound := rest, recv_calls := Suc (recv_calls ?st1)\<rparr>)"
    using c(2) by (intro recv_piece) simp_all
  ultimately show ?thesis
    using assms(3) c snoc by (simp add: k' receive_loop_step write_file_append)
qed

subsection \<open>Paths\<close>

lemma basename_no_slash: "CHR ''/'' \<notin> set (basename p)"
  by (auto simp: basename_def dest: set_takeWhileD)

lemma takeWhile_until_slash:
  "CHR ''/'' \<notin> set name \<Longrightarrow> takeWhile (\<lambda>c. c \<noteq> CHR ''/'') (rev name @ CHR ''/'' # ys) = rev name"
  using takeWhile_append2 [of "rev name" "\<lambda>c. c \<noteq> CHR ''/''" "CHR ''/'' # ys"] by auto

lemma dropWhile_until_slash:
  "CHR ''/'' \<notin> set name \<Longrightarrow>
     dropWhile (\<lambda>c. c \<noteq> CHR ''/'') (rev name @ CHR ''/'' # ys) = CHR ''/'' # ys"
  using dropWhile_append2 [of "rev name" "\<lambda>c. c \<noteq> CHR ''/''" "CHR ''/'' # ys"] by auto

lemma basename_join: "CHR ''/'' \<notin> set name \<Longrightarrow> basename (d @ ''/'' @ name) = name"
  by (simp add: basename_def takeWhile_until_slash)

lemma dirname_join:
  assumes "d \<noteq> []" "last d \<noteq> CHR ''/''" "CHR ''/'' \<notin> set name"
  shows "dirname (d @ ''/'' @ name) = d"
proof -
  obtain x xs where rd: "rev d = x # xs"
    using assms(1) by (cases "rev d") auto
  have "x = last d"
    using rd assms(1) by (metis hd_rev list.sel(1))
  then have x: "x \<noteq> CHR ''/''"
    using assms(2) by simp
  have d: "d = rev xs @ [x]"
    using rd by (metis rev.simps(2) rev_rev_ident)
  have a: "dropWhile (\<lambda>c. c \<noteq> CHR ''/'') (rev name @ CHR ''/'' # x # xs) = CHR ''/'' # x # xs"
    using assms(3) by (rule dropWhile_until_slash)
  show ?thesis
    unfolding dirname_def d using x
    by (simp add: a Let_def)
qed

lemma digit_char_not_slash: "d < 10 \<Longrightarrow> digit_char d \<noteq> CHR ''/''"
proof
  assume "d < 10" "digit_char d = CHR ''/''"
  then have "of_char (char_of (48 + d)) = (of_char CHR ''/'' :: nat)"
    by (simp add: digit_char_def)
  with \<open>d < 10\<close> show False by simp
qed

lemma str_nat_last: "str_nat n \<noteq> [] \<and> last (str_nat n) \<noteq> CHR ''/''"
proof -
  have "str_nat n \<noteq> [] \<and> last (str_nat n) = digit_char (n mod 10)"
    by (subst (1 2) str_nat.simps) simp
  then show ?thesis by (simp add: digit_char_not_slash)
qed

lemma STORAGE_DIR_last: "STORAGE_DIR host port \<noteq> [] \<and> last (STORAGE_DIR host port) \<noteq> CHR ''/''"
  using str_nat_last [of port] by (simp add: STORAGE_DIR_def)

lemma dirname_storage_path:
  "CHR ''/'' \<notin> set name \<Longrightarrow> dirname (STORAGE_DIR host port @ ''/'' @ name) = STORAGE_DIR host port"
  using STORAGE_DIR_last by (intro dirname_join) auto

subsection \<open>Exceptions and their messages\<close>

lemma os_error_not_success:
  "str_exn (os_error cls errno strerror filename) \<noteq> TRANSFER_SUCCESSFUL_CODE"
  "str_exn (os_error cls errno strerror filename) \<noteq> ''TRANSFER_SUCCESSFUL''"
  by (simp_all add: os_error_def TRANSFER_SUCCESSFUL_CODE_def)

lemma integrity_never_False: "is_file_integrity_matched md5 fs p h \<noteq> Inr False"
  by (auto simp: is_file_integrity_matched_def split: sum.splits)



lemma integrity_File:
  "fs p = Some (File content) \<Longrightarrow>
     is_file_integrity_matched md5 fs p h =
       (if md5 content \<noteq> h then Inl (PyExn ''Exception'' ''File integrity check failed!'') else Inr True)"
  by (simp add: is_file_integrity_matched_def calc_file_md5_def read_file_def)

lemma tqdm_range_result: "tqdm_range n = Inr k \<Longrightarrow> n \<le> ssize_t_max \<and> k = nat n"
  by (auto simp: tqdm_range_def split: if_splits)

lemma tqdm_range_error: "tqdm_range n = Inl e \<Longrightarrow> str_exn e \<noteq> TRANSFER_SUCCESSFUL_CODE"
  by (auto simp: tqdm_range_def TRANSFER_SUCCESSFUL_CODE_def split: if_splits)

lemma tqdm_range_small: "n \<le> ssize_t_max \<Longrightarrow> tqdm_range n = Inr (nat n)"
  by (simp add: tqdm_range_def)

lemma makedirs_result:
  "makedirs p fs = Inr fs' \<Longrightarrow> fs' = fs(p \<mapsto> Dir)"
  by (auto simp: makedirs_def split: if_splits)

lemma makedirs_error: "makedirs p fs = Inl e \<Longrightarrow> str_exn e \<noteq> TRANSFER_SUCCESSFUL_CODE"
  by (auto simp: makedirs_def os_error_not_success split: if_splits)

lemma open_wb_result:
  "open_wb p fs = Inr fs' \<Longrightarrow>
     fs' = fs(p \<mapsto> File []) \<and> basename p \<noteq> [] \<and> basename p \<noteq> ''.'' \<and> basename p \<noteq> ''..'' \<and>
     CHR 0x00 \<notin> set (basename p) \<and> length (basename p) \<le> NAME_MAX"
  by (auto simp: open_wb_def split: if_splits)

lemma open_wb_error: "open_wb p fs = Inl e \<Longrightarrow> str_exn e \<noteq> TRANSFER_SUCCESSFUL_CODE"
  by (auto simp: open_wb_def os_error_not_success TRANSFER_SUCCESSFUL_CODE_def split: if_splits)

subsection \<open>The transfer\<close>

text \<open>
  The \<open>try\<close> block either fails before the loop, having at most created the storage
  directory, or it builds the progress bar, opens the destination, runs the loop and
  checks the digest.
\<close>

lemma put_transfer_cases [case_names failed received]:
  obtains (failed) e fs1 where
      "put_transfer md5 dir name n h st = (Inl e, st\<lparr>storage := fs1\<rparr>)"
      "str_exn e \<noteq> TRANSFER_SUCCESSFUL_CODE"
      "\<forall>q. q \<noteq> dir \<longrightarrow> fs1 q = storage st q"
  | (received) fs1 fs2 t st3 where
      "n \<le> ssize_t_max"
      "\<forall>q. q \<noteq> dir \<longrightarrow> fs1 q = storage st q"
      "open_wb (dir @ ''/'' @ name) fs1 = Inr fs2"
      "receive_loop (nat n) (dir @ ''/'' @ name) n 0 (st\<lparr>storage := fs2\<rparr>) = (t, st3)"
      "put_transfer md5 dir name n h st =
         (is_file_integrity_matched md5 (storage st3) (dir @ ''/'' @ name) h, st3)"
proof (cases "tqdm_range n")
  case (Inl e)
  then have "put_transfer md5 dir name n h st = (Inl e, st\<lparr>storage := storage st\<rparr>)"
    by (simp add: put_transfer_def)
  with tqdm_range_error [OF Inl] show ?thesis
    by (intro failed [of e "storage st"]) simp_all
next
  case (Inr k)
  note k = tqdm_range_result [OF Inr]
  let ?p = "dir @ ''/'' @ name"
  let ?pre = "if \<not> path_exists (storage st) dir then makedirs dir (storage st) else Inr (storage st)"
  show ?thesis
  proof (cases ?pre)
    case (Inl e)
    then have "put_transfer md5 dir name n h st = (Inl e, st\<lparr>storage := storage st\<rparr>)"
      using Inr by (simp add: put_transfer_def)
    moreover have "str_exn e \<noteq> TRANSFER_SUCCESSFUL_CODE"
      using Inl by (auto dest: makedirs_error split: if_splits)
    ultimately show ?thesis
      by (intro failed [of e "storage st"]) simp_all
  next
    case fs1: (Inr fs1)
    then have frame: "\<forall>q. q \<noteq> dir \<longrightarrow> fs1 q = storage st q"
      by (auto dest: makedirs_result split: if_splits)
    show ?thesis
    proof (cases "open_wb ?p fs1")
      case (Inl e)
      then have "put_transfer md5 dir name n h st = (Inl e, st\<lparr>storage := fs1\<rparr>)"
        using Inr fs1 by (simp add: put_transfer_def Let_def)
      with open_wb_error [OF Inl] frame show ?thesis
        by (intro failed [of e fs1]) simp_all
    next
      case fs2: (Inr fs2)
      obtain t st3 where loop: "receive_loop (nat n) ?p n 0 (st\<lparr>storage := fs2\<rparr>) = (t, st3)"
        by (cases "receive_loop (nat n) ?p n 0 (st\<lparr>storage := fs2\<rparr>)")
      have "put_transfer md5 dir name n h st = (is_file_integrity_matched md5 (storage st3) ?p h, st3)"
        using Inr fs1 fs2 loop k by (simp add: put_transfer_def Let_def)
      with k frame fs2 loop show ?thesis
        by (intro received [of fs1 fs2 t st3]) simp_all
    qed
  qed
qed

lemma put_transfer_frame:
  assumes "put_transfer md5 dir name n h st = (r, st')"
  shows "outbound st' = outbound st"
    and "q \<noteq> dir \<Longrightarrow> q \<noteq> dir @ ''/'' @ name \<Longrightarrow> storage st' q = storage st q"
    and "storage st' (dir @ ''/'' @ name) \<noteq> storage st (dir @ ''/'' @ name) \<Longrightarrow>
           basename (dir @ ''/'' @ name) \<noteq> [] \<and> basename (dir @ ''/'' @ name) \<noteq> ''.'' \<and>
           basename (dir @ ''/'' @ name) \<noteq> ''..''"
proof -
  let ?p = "dir @ ''/'' @ name"
  have ne: "?p \<noteq> dir" by simp
  have "outbound st' = outbound st \<and>
        (q \<noteq> dir \<longrightarrow> q \<noteq> ?p \<longrightarrow> storage st' q = storage st q) \<and>
        (storage st' ?p \<noteq> storage st ?p \<longrightarrow>
           basename ?p \<noteq> [] \<and> basename ?p \<noteq> ''.'' \<and> basename ?p \<noteq> ''..'')"
  proof (cases rule: put_transfer_cases [of md5 dir name n h st])
    case (failed e fs1)
    with assms have "st' = st\<lparr>storage := fs1\<rparr>" by simp
    with failed(3) ne show ?thesis by simp
  next
    case (received fs1 fs2 t st3)
    from received(5) assms have st': "st' = st3" by simp
    note fr = receive_loop_frame [OF received(4)]
    note op = open_wb_result [OF received(3)]
    have "q \<noteq> dir \<Longrightarrow> q \<noteq> ?p \<Longrightarrow> storage st3 q = storage st q"
      using fr op received(2) by simp
    with fr op st' show ?thesis by simp
  qed
  then show "outbound st' = outbound st"
    and "q \<noteq> dir \<Longrightarrow> q \<noteq> ?p \<Longrightarrow> storage st' q = storage st q"
    and "storage st' ?p \<noteq> storage st ?p \<Longrightarrow>
           basename ?p \<noteq> [] \<and> basename ?p \<noteq> ''.'' \<and> basename ?p \<noteq> ''..''"
    by blast+
qed


lemma put_transfer_never_False: "fst (put_transfer md5 dir name n h st) \<noteq> Inr False"
proof (cases rule: put_transfer_cases [of md5 dir name n h st])
  case (failed e fs1)
  then show ?thesis by simp
next
  case (received fs1 fs2 t st3)
  then show ?thesis by (simp add: integrity_never_False)
qed


lemma put_transfer_recv_calls:
  "recv_calls (snd (put_transfer md5 dir name n h st)) \<le> recv_calls st + nat n"
proof (cases rule: put_transfer_cases [of md5 dir name n h st])
  case (failed e fs1)
  then show ?thesis by simp
next
  case (received fs1 fs2 t st3)
  have "recv_calls st3 \<le> recv_calls (st\<lparr>storage := fs2\<rparr>) + nat n"
    using receive_loop_recv_calls [of "nat n" "dir @ ''/'' @ name" n 0 "st\<lparr>storage := fs2\<rparr>"] received(4)
    by simp
  with received(5) show ?thesis by simp
qed

lemma receive_file_from_sock_recv_calls:
  "recv_calls (snd (receive_file_from_sock dest n st)) \<le> recv_calls st + nat n"
proof (cases "tqdm_range n")
  case (Inl e)
  then show ?thesis by (simp add: receive_file_from_sock_def)
next
  case (Inr k)
  note k = tqdm_range_result [OF Inr]
  let ?dir = "dirname dest"
  let ?pre = "if \<not> path_exists (storage st) ?dir then makedirs ?dir (storage st) else Inr (storage st)"
  show ?thesis
  proof (cases ?pre)
    case (Inl e)
    with Inr show ?thesis by (simp add: receive_file_from_sock_def Let_def)
  next
    case fs1: (Inr fs1)
    show ?thesis
    proof (cases "open_wb dest fs1")
      case (Inl e)
      with Inr fs1 show ?thesis by (simp add: receive_file_from_sock_def Let_def)
    next
      case fs2: (Inr fs2)
      obtain t st3 where loop: "receive_loop (nat n) dest n 0 (st\<lparr>storage := fs2\<rparr>) = (t, st3)"
        by (cases "receive_loop (nat n) dest n 0 (st\<lparr>storage := fs2\<rparr>)")
      have "recv_calls st3 \<le> recv_calls (st\<lparr>storage := fs2\<rparr>) + nat n"
        using receive_loop_recv_calls [of "nat n" dest n 0 "st\<lparr>storage := fs2\<rparr>"] loop by simp
      with Inr fs1 fs2 loop k show ?thesis
        by (simp add: receive_file_from_sock_def Let_def)
    qed
  qed
qed

lemma put_transfer_writable:
  assumes small: "n \<le> ssize_t_max"
      and dir: "storage st (STORAGE_DIR host port) = None \<or> storage st (STORAGE_DIR host port) = Some Dir"
      and name: "CHR ''/'' \<notin> set name" "name \<noteq> []" "name \<noteq> ''.''" "name \<noteq> ''..''"
                "CHR 0x00 \<notin> set name" "length name \<le> NAME_MAX"
      and nodir: "storage st (STORAGE_DIR host port @ ''/'' @ name) \<noteq> Some Dir"
      and loop: "receive_loop (nat n) (STORAGE_DIR host port @ ''/'' @ name) n 0
                   (st\<lparr>storage := (storage st)(STORAGE_DIR host port \<mapsto> Dir,
                                     STORAGE_DIR host port @ ''/'' @ name \<mapsto> File [])\<rparr>) = (t, st3)"
  shows "put_transfer md5 (STORAGE_DIR host port) name n h st =
           (is_file_integrity_matched md5 (storage st3) (STORAGE_DIR host port @ ''/'' @ name) h, st3)"
proof -
  let ?dir = "STORAGE_DIR host port"
  let ?p = "?dir @ ''/'' @ name"
  let ?fs1 = "(storage st)(?dir \<mapsto> Dir)"
  have ne: "?dir \<noteq> []" using STORAGE_DIR_last by simp
  have pre: "(if \<not> path_exists (storage st) ?dir then makedirs ?dir (storage st) else Inr (storage st)) = Inr ?fs1"
  proof (cases "storage st ?dir")
    case None
    with ne show ?thesis by (simp add: path_exists_def makedirs_def)
  next
    case (Some a)
    with dir have "storage st ?dir = Some Dir" by simp
    then have "?fs1 = storage st" by (simp add: fun_upd_idem)
    with Some show ?thesis by (simp add: path_exists_def)
  qed
  have "?p \<noteq> ?dir" by simp
  then have "?fs1 ?p \<noteq> Some Dir" using nodir by simp
  have dn: "dirname ?p = ?dir" using name(1) by (rule dirname_storage_path)
  have bn: "basename ?p = name" using name(1) by (rule basename_join)
  have "open_wb ?p ?fs1 = Inr (?fs1(?p \<mapsto> File []))"
    unfolding open_wb_def dn bn using name ne \<open>?fs1 ?p \<noteq> Some Dir\<close> by simp
  with pre loop small show ?thesis
    by (simp add: put_transfer_def Let_def tqdm_range_small)
qed

lemma put_transfer_truncated:
  assumes small: "n \<le> ssize_t_max"
      and dir: "storage st (STORAGE_DIR host port) = None \<or> storage st (STORAGE_DIR host port) = Some Dir"
      and name: "CHR ''/'' \<notin> set name" "name \<noteq> []" "name \<noteq> ''.''" "name \<noteq> ''..''"
                "CHR 0x00 \<notin> set name" "length name \<le> NAME_MAX"
      and nodir: "storage st (STORAGE_DIR host port @ ''/'' @ name) \<noteq> Some Dir"
      and reads: "inbound st = chunks @- ([] ## rest)" "\<forall>c\<in>set chunks. c \<noteq> [] \<and> length c \<le> BUFFER_SIZE"
      and short: "int (length (concat chunks)) < n"
  shows "put_transfer md5 (STORAGE_DIR host port) name n h st =
           (if md5 (concat chunks) \<noteq> h then Inl (PyExn ''Exception'' ''File integrity check failed!'')
            else Inr True,
            st\<lparr>inbound := rest, recv_calls := recv_calls st + Suc (length chunks),
               storage := (storage st)(STORAGE_DIR host port \<mapsto> Dir,
                                       STORAGE_DIR host port @ ''/'' @ name \<mapsto> File (concat chunks))\<rparr>)"
proof -
  let ?dir = "STORAGE_DIR host port"
  let ?p = "?dir @ ''/'' @ name"
  let ?st0 = "st\<lparr>storage := (storage st)(?dir \<mapsto> Dir, ?p \<mapsto> File [])\<rparr>"
  let ?st3 = "?st0\<lparr>inbound := rest, recv_calls := recv_calls ?st0 + Suc (length chunks),
                    storage := write_file ?p (concat chunks) (storage ?st0)\<rparr>"
  have "inbound ?st0 = chunks @- ([] ## rest)" using reads(1) by simp
  from receive_loop_truncated [OF this reads(2) short]
  have loop: "receive_loop (nat n) ?p n 0 ?st0 = (length (concat chunks), ?st3)" .
  from put_transfer_writable [OF small dir name nodir loop, of md5 h] show ?thesis
    by (simp add: write_file_upd integrity_File)
qed

lemma put_transfer_complete:
  assumes small: "n \<le> ssize_t_max"
      and dir: "storage st (STORAGE_DIR host port) = None \<or> storage st (STORAGE_DIR host port) = Some Dir"
      and name: "CHR ''/'' \<notin> set name" "name \<noteq> []" "name \<noteq> ''.''" "name \<noteq> ''..''"
                "CHR 0x00 \<notin> set name" "length name \<le> NAME_MAX"
      and nodir: "storage st (STORAGE_DIR host port @ ''/'' @ name) \<noteq> Some Dir"
      and reads: "inbound st = chunks @- rest" "\<forall>c\<in>set chunks. c \<noteq> [] \<and> length c \<le> BUFFER_SIZE"
      and full: "int (length (concat chunks)) = n"
  shows "put_transfer md5 (STORAGE_DIR host port) name n h st =
           (if md5 (concat chunks) \<noteq> h then Inl (PyExn ''Exception'' ''File integrity check failed!'')
            else Inr True,
            st\<lparr>inbound := rest, recv_calls := recv_calls st + length chunks,
               storage := (storage st)(STORAGE_DIR host port \<mapsto> Dir,
                                       STORAGE_DIR host port @ ''/'' @ name \<mapsto> File (concat chunks))\<rparr>)"
proof -
  let ?dir = "STORAGE_DIR host port"
  let ?p = "?dir @ ''/'' @ name"
  let ?st0 = "st\<lparr>storage := (storage st)(?dir \<mapsto> Dir, ?p \<mapsto> File [])\<rparr>"
  let ?st3 = "?st0\<lparr>inbound := rest, recv_calls := recv_calls ?st0 + length chunks,
                    storage := write_file ?p (concat chunks) (storage ?st0)\<rparr>"
  have "inbound ?st0 = chunks @- rest" using reads(1) by simp
  from receive_loop_complete [OF this reads(2) full]
  have loop: "receive_loop (nat n) ?p n 0 ?st0 = (length (concat chunks), ?st3)" .
  from put_transfer_writable [OF small dir name nodir loop, of md5 h] show ?thesis
    by (simp add: write_file_upd integrity_File)
qed

text \<open>
  A declared size above \<open>sys.maxsize\<close>: the progress bar cannot be built, nothing is read
  and nothing is written, and the message of the \<open>OverflowError\<close> is the response.
\<close>

lemma put_transfer_overflow:
  "ssize_t_max < n \<Longrightarrow>
     put_transfer md5 dir name n h st =
       (Inl (PyExn ''OverflowError'' ''Python int too large to convert to C ssize_t''), st)"
  by (simp add: put_transfer_def tqdm_range_def)

subsection \<open>The PUT handler\<close>

lemma do_put_handler_args:
  "py_int file_size = Inr n \<Longrightarrow>
     do_put_handler md5 dir [filename, file_size, file_hash] st =
       (case put_transfer md5 dir (basename filename) n file_hash st of
          (Inl e, st') \<Rightarrow> (Inr (PyStr (str_exn e)), st')
        | (Inr is_file_valid, st') \<Rightarrow>
            if is_file_valid then (Inr (PyStr TRANSFER_SUCCESSFUL_CODE), st')
            else (Inl (PyExn ''UnboundLocalError''
                         ''cannot access local variable 'response_message' where it is not associated with a value''), st'))"
  by (simp add: do_put_handler_def)

lemma do_put_handler_malformed:
  "(\<nexists>filename file_size file_hash n. args = [filename, file_size, file_hash] \<and> py_int file_size = Inr n) \<Longrightarrow>
     \<exists>e. do_put_handler md5 dir args st = (Inl e, st)"
  by (auto simp: do_put_handler_def split: list.splits sum.splits)

lemma do_put_handler_outbound:
  "do_put_handler md5 dir args st = (r, st') \<Longrightarrow> outbound st' = outbound st"
proof (cases "\<exists>filename file_size file_hash n. args = [filename, file_size, file_hash] \<and> py_int file_size = Inr n")
  case False
  then have "\<exists>e. do_put_handler md5 dir args st = (Inl e, st)"
    by (intro do_put_handler_malformed) simp
  moreover assume "do_put_handler md5 dir args st = (r, st')"
  ultimately show ?thesis by auto
next
  case True
  then obtain filename file_size file_hash n where
    args: "args = [filename, file_size, file_hash]" and n: "py_int file_size = Inr n"
    by blast
  assume res: "do_put_handler md5 dir args st = (r, st')"
  obtain v st2 where pt: "put_transfer md5 dir (basename filename) n file_hash st = (v, st2)"
    by (cases "put_transfer md5 dir (basename filename) n file_hash st")
  from res have "st' = st2"
    unfolding args do_put_handler_args [OF n] pt by (auto split: sum.splits if_splits)
  with put_transfer_frame(1) [OF pt] show ?thesis by simp
qed

lemma do_put_handler_responds:
  assumes "py_int file_size = Inr n"
  shows "\<exists>response_message st'.
           do_put_handler md5 dir [filename, file_size, file_hash] st = (Inr (PyStr response_message), st')"
proof -
  obtain v st2 where pt: "put_transfer md5 dir (basename filename) n file_hash st = (v, st2)"
    by (cases "put_transfer md5 dir (basename filename) n file_hash st")
  have "v \<noteq> Inr False"
    using put_transfer_never_False [of md5 dir "basename filename" n file_hash st] pt by simp
  then show ?thesis
    unfolding do_put_handler_args [OF assms] pt by (cases v) auto
qed

lemma do_put_handler_truncated:
  assumes size: "py_int file_size = Inr n" "n \<le> ssize_t_max"
      and dir: "storage st (STORAGE_DIR host port) = None \<or> storage st (STORAGE_DIR host port) = Some Dir"
      and name: "basename filename \<noteq> []" "basename filename \<noteq> ''.''" "basename filename \<noteq> ''..''"
                "CHR 0x00 \<notin> set (basename filename)" "length (basename filename) \<le> NAME_MAX"
      and nodir: "storage st (STORAGE_DIR host port @ ''/'' @ basename filename) \<noteq> Some Dir"
      and reads: "inbound st = chunks @- ([] ## rest)" "\<forall>c\<in>set chunks. c \<noteq> [] \<and> length c \<le> BUFFER_SIZE"
      and short: "int (length (concat chunks)) < n"
  shows "do_put_handler md5 (STORAGE_DIR host port) [filename, file_size, file_hash] st =
           (Inr (PyStr (if md5 (concat chunks) = file_hash then TRANSFER_SUCCESSFUL_CODE
                        else ''File integrity check failed!'')),
            st\<lparr>inbound := rest, recv_calls := recv_calls st + Suc (length chunks),
               storage := (storage st)(STORAGE_DIR host port \<mapsto> Dir,
                             STORAGE_DIR host port @ ''/'' @ basename filename \<mapsto> File (concat chunks))\<rparr>)"
  unfolding do_put_handler_args [OF size(1)]
    put_transfer_truncated [OF size(2) dir basename_no_slash name nodir reads short]
  by simp

lemma do_put_handler_complete:
  assumes size: "py_int file_size = Inr n" "n \<le> ssize_t_max"
      and dir: "storage st (STORAGE_DIR host port) = None \<or> storage st (STORAGE_DIR host port) = Some Dir"
      and name: "basename filename \<noteq> []" "basename filename \<noteq> ''.''" "basename filename \<noteq> ''..''"
                "CHR 0x00 \<notin> set (basename filename)" "length (basename filename) \<le> NAME_MAX"
      and nodir: "storage st (STORAGE_DIR host port @ ''/'' @ basename filename) \<noteq> Some Dir"
      and reads: "inbound st = chunks @- rest" "\<forall>c\<in>set chunks. c \<noteq> [] \<and> length c \<le> BUFFER_SIZE"
      and full: "int (length (concat chunks)) = n"
  shows "do_put_handler md5 (STORAGE_DIR host port) [filename, file_size, file_hash] st =
           (Inr (PyStr (if md5 (concat chunks) = file_hash then TRANSFER_SUCCESSFUL_CODE
                        else ''File integrity check failed!'')),
            st\<lparr>inbound := rest, recv_calls := recv_calls st + length chunks,
               storage := (storage st)(STORAGE_DIR host port \<mapsto> Dir,
                             STORAGE_DIR host port @ ''/'' @ basename filename \<mapsto> File (concat chunks))\<rparr>)"
  unfolding do_put_handler_args [OF size(1)]
    put_transfer_complete [OF size(2) dir basename_no_slash name nodir reads full]
  by simp

subsection \<open>The dispatcher\<close>

lemma utf8_valid_ascii: "\<forall>b\<in>set bs. b < 128 \<Longrightarrow> utf8_valid bs"
proof (induction bs)
  case Nil
  then show ?case by (simp add: utf8_valid.simps)
next
  case (Cons a bs)
  then have "utf8_seq_len (a # bs) = 1" by simp
  with Cons show ?case
    by (subst utf8_valid.simps) simp
qed

lemma decode_utf8_ascii: "\<forall>c\<in>set s. (of_char c :: nat) < 128 \<Longrightarrow> decode_utf8 s = Inr s"
  by (simp add: decode_utf8_def utf8_valid_ascii)

lemma decode_utf8_result: "decode_utf8 data = Inr received \<Longrightarrow> received = data"
  by (auto simp: decode_utf8_def split: if_splits)

lemma request_type_distinct:
  "PUT_REQUEST \<noteq> GET_REQUEST" "STATUS_REQUEST \<noteq> GET_REQUEST" "STATUS_REQUEST \<noteq> PUT_REQUEST"
  by (simp_all add: protocol_defs)

lemma handle_request:
  assumes "recv BUFFER_SIZE st = (data, st1)" "decode_utf8 data = Inr received"
      and "py_split SEPARATOR received = request_type # args"
  shows "handle md5 host port st =
       (case dispatch md5 host port request_type args st1 of
          (Inl e, st2) \<Rightarrow> (Some e, st2)
        | (Inr PyNone, st2) \<Rightarrow> (Some (PyExn ''TypeError'' ''encoding without a string argument''), st2)
        | (Inr (PyStr response_message), st2) \<Rightarrow> (None, sendall response_message st2))"
  using assms by (simp add: handle_def)

lemma handle_put:
  assumes "recv BUFFER_SIZE st = (data, st1)" "decode_utf8 data = Inr received"
      and "py_split SEPARATOR received = PUT_REQUEST # args"
  shows "handle md5 host port st =
           (case do_put_handler md5 (STORAGE_DIR host port) args st1 of
              (Inl e, st2) \<Rightarrow> (Some e, st2)
            | (Inr PyNone, st2) \<Rightarrow> (Some (PyExn ''TypeError'' ''encoding without a string argument''), st2)
            | (Inr (PyStr response_message), st2) \<Rightarrow> (None, sendall response_message st2))"
  unfolding handle_request [OF assms] dispatch_def
  by (simp add: request_type_distinct)

text \<open>A split always has a first field, the request type.\<close>

lemma py_split_nonempty: "py_split sep s \<noteq> []"
  by (cases s) (auto simp: py_split.simps split: list.splits)

text \<open>
  What the \<open>try\<close> block of \<open>do_put_handler\<close> does achieve: a request that decodes, whose
  type is not \<open>GET_REQUEST\<close> and which, when it is a \<open>PUT_REQUEST\<close>, carries three arguments
  with a size that \<open>int\<close> accepts, always gets one response.
\<close>

lemma handle_sends_a_response:
  assumes "recv BUFFER_SIZE st = (data, st1)" "decode_utf8 data = Inr received"
      and "py_split SEPARATOR received = request_type # args"
      and "request_type \<noteq> GET_REQUEST"
      and "request_type = PUT_REQUEST \<longrightarrow>
             (\<exists>filename file_size file_hash n. args = [filename, file_size, file_hash] \<and> py_int file_size = Inr n)"
  shows "\<exists>response_message st'. handle md5 host port st = (None, st') \<and>
           outbound st' = outbound st @ [response_message]"
proof (cases "request_type = PUT_REQUEST")
  case True
  with assms(5) obtain filename file_size file_hash n where
    args: "args = [filename, file_size, file_hash]" and n: "py_int file_size = Inr n"
    by blast
  from do_put_handler_responds [OF n] obtain response_message st2 where
    put: "do_put_handler md5 (STORAGE_DIR host port) [filename, file_size, file_hash] st1 =
            (Inr (PyStr response_message), st2)"
    by blast
  from do_put_handler_outbound [OF put] recv_fields(2) [OF assms(1)] have "outbound st2 = outbound st"
    by simp
  then show ?thesis
    unfolding handle_request [OF assms(1-3)] dispatch_def
    using True args put by (simp add: request_type_distinct sendall_def)
next
  case False
  with assms(4) recv_fields(2) [OF assms(1)] show ?thesis
    unfolding handle_request [OF assms(1-3)] dispatch_def
    by (simp add: sendall_def)
qed

subsection \<open>Values at concrete inputs\<close>

lemma digit_char_simps:
  "digit_char 0 = CHR ''0''" "digit_char 1 = CHR ''1''" "digit_char 2 = CHR ''2''"
  "digit_char 3 = CHR ''3''" "digit_char 4 = CHR ''4''" "digit_char 5 = CHR ''5''"
  "digit_char 6 = CHR ''6''" "digit_char 7 = CHR ''7''" "digit_char 8 = CHR ''8''"
  "digit_char 9 = CHR ''9''"
  by (simp_all add: digit_char_def char_of_def bit_Suc_0_iff)

lemmas str_nat_numeral = str_nat.simps [of "numeral k" for k] str_nat.simps [of 0]

lemma storage_dir_example: "STORAGE_DIR ''0.0.0.0'' 5000 = ''storage_0.0.0.0_5000''"
  by (simp add: STORAGE_DIR_def str_nat_numeral digit_char_simps)

lemmas py_int_defs = py_int_def is_space_def is_digit_def digit_val_def digit_or_underscore_def
  decimal_value_def int_max_str_digits_def

lemma py_int_examples:
  "py_int ''0'' = Inr 0" "py_int ''3'' = Inr 3" "py_int ''5'' = Inr 5" "py_int ''10'' = Inr 10"
  by (simp_all add: py_int_defs)

lemma py_int_abc: "py_int ''abc'' = Inl (int_error ''abc'')"
  by (simp add: py_int_defs)

text \<open>
  The digit three of the Arabic script (U+0663, in UTF-8 the bytes D9 A3) is read as 3;
  the character 1F before a digit is not white space for \<open>int\<close>.
\<close>

lemma py_int_other_script: "py_int [CHR 0xD9, CHR 0xA3] = Inr 3"
  by (simp add: py_int_defs code_points.simps cont_byte_def unicode_space_def unicode_decimal_def
      decimal_zeros_def digit_char_simps)

lemma py_int_unit_separator: "py_int [CHR 0x1F, CHR ''5''] = Inl (int_error [CHR 0x1F, CHR ''5''])"
  by (simp add: py_int_defs)

lemma hex_digit_simps:
  "hex_digit 0 = CHR ''0''" "hex_digit 2 = CHR ''2''" "hex_digit 3 = CHR ''3''"
  "hex_digit 6 = CHR ''6''" "hex_digit 12 = CHR ''c''"
  by (simp_all add: hex_digit_def char_of_def bit_Suc_0_iff)

lemma checksum_digest_examples:
  "checksum_digest [] = ''00''" "checksum_digest ''ab'' = ''c3''" "checksum_digest ''abc'' = ''26''"
  by (simp_all add: checksum_digest_def hex_digit_simps)

lemma basename_examples:
  "basename ''report.txt'' = ''report.txt''" "basename ''notes.txt'' = ''notes.txt''"
  "basename ''../../etc/passwd'' = ''passwd''"
  by (simp_all add: basename_def)

lemma py_split_header_examples:
  "py_split SEPARATOR ''<PUT_REQUEST><>notes.txt<>5<>c3'' = [PUT_REQUEST, ''notes.txt'', ''5'', ''c3'']"
  "py_split SEPARATOR ''<PUT_REQUEST><>report.txt<>11'' = [PUT_REQUEST, ''report.txt'', ''11'']"
  "py_split SEPARATOR ''<PUT_REQUEST><>report.txt<>3<>00'' = [PUT_REQUEST, ''report.txt'', ''3'', ''00'']"
  "py_split SEPARATOR ''<PUT_REQUEST><>report.txt<>abc<>00'' = [PUT_REQUEST, ''report.txt'', ''abc'', ''00'']"
  "py_split SEPARATOR ''<STATUS_REQUEST>'' = [STATUS_REQUEST]"
  "py_split SEPARATOR ''<GET_REQUEST><>report.txt'' = [GET_REQUEST, ''report.txt'']"
  by (simp_all add: protocol_defs py_split.simps)

lemma unpack_error_3_2:
  "unpack_error 3 (Suc (Suc 0)) = PyExn ''ValueError'' ''not enough values to unpack (expected 3, got 2)''"
proof -
  have "unpack_error 3 2 = PyExn ''ValueError'' ''not enough values to unpack (expected 3, got 2)''"
    by (simp add: unpack_error_def str_nat_numeral digit_char_simps)
  then show ?thesis by (simp only: numeral_2_eq_2)
qed

text \<open>The first \<open>recv\<close> of \<open>handle\<close> on a request of at most \<open>BUFFER_SIZE\<close> ASCII bytes.\<close>

lemma recv_header:
  "length header \<le> BUFFER_SIZE \<Longrightarrow>
     recv BUFFER_SIZE \<lparr>storage = fs, inbound = header ## rest, outbound = sent, recv_calls = k\<rparr> =
       (header, \<lparr>storage = fs, inbound = rest, outbound = sent, recv_calls = Suc k\<rparr>)"
  by (simp add: recv_def)

lemmas limits_defs = ssize_t_max_def NAME_MAX_def BUFFER_SIZE_def

lemma decode_utf8_header_examples:
  "decode_utf8 ''<PUT_REQUEST><>notes.txt<>5<>c3'' = Inr ''<PUT_REQUEST><>notes.txt<>5<>c3''"
  "decode_utf8 ''<PUT_REQUEST><>report.txt<>11'' = Inr ''<PUT_REQUEST><>report.txt<>11''"
  "decode_utf8 ''<PUT_REQUEST><>report.txt<>abc<>00'' = Inr ''<PUT_REQUEST><>report.txt<>abc<>00''"
  "decode_utf8 ''<STATUS_REQUEST>'' = Inr ''<STATUS_REQUEST>''"
  "decode_utf8 ''<GET_REQUEST><>report.txt'' = Inr ''<GET_REQUEST><>report.txt''"
  by (simp_all add: decode_utf8_ascii)

lemma decode_utf8_invalid_example:
  "decode_utf8 [CHR 0xFF] = Inl (PyExn ''UnicodeDecodeError'' ''utf-8 codec cannot decode the data'')"
  by (simp add: decode_utf8_def utf8_valid.simps)

section \<open>Node identity\<close>

lemma py_split_colon_example:
  "py_split '':'' ''0.0.0.0:5000'' = [''0.0.0.0'', ''5000'']"
  by (simp add: py_split.simps)

lemma py_split_table_example:
  "py_split ''__'' ''sn__0_0_0_0__5000'' = [''sn'', ''0_0_0_0'', ''5000'']"
  by (simp add: py_split.simps)

text \<open>
  C1.  The table name of \<open>0.0.0.0:5000\<close> is \<open>sn__0_0_0_0__5000\<close>, as the comment in
  \<open>get_sn_table_name_from_ip\<close> says, but parsing that name back gives
  \<open>0_0_0_0:5000\<close>: the underscores of the host are not turned back into dots, so the
  round trip is not the identity on a dotted IPv4 host (the comment in
  \<open>get_ip_from_sn_table_name\<close> promises \<open>0.0.0.0:5000\<close>).
\<close>

theorem table_name_round_trip_dotted_host:
  "get_sn_table_name_from_ip ''0.0.0.0:5000'' = Inr ''sn__0_0_0_0__5000'' \<and>
   get_ip_from_sn_table_name ''sn__0_0_0_0__5000'' = Inr ''0_0_0_0:5000'' \<and>
   ''0_0_0_0:5000'' \<noteq> ''0.0.0.0:5000''"
  by (simp add: get_sn_table_name_from_ip_def get_ip_from_sn_table_name_def replace_char_def
      py_split_colon_example py_split_table_example)

section \<open>Receiving a file\<close>





text \<open>
  C3 (as amended).  The declared size is a number \<open>n\<close> below \<open>2^63\<close>, the storage
  directory is absent or a directory, the base name can be opened there, and the socket
  delivers the pieces \<open>chunks\<close>, none empty and none longer than one \<open>recv\<close> returns,
  fewer than \<open>n\<close> bytes in all, and then a zero-length read.  Then the loop stops at that
  read and the outcome is decided by the digest of the bytes written alone:
  \<open>TRANSFER_SUCCESSFUL\<close> when it equals the expected hash, and otherwise the message
  \<open>File integrity check failed!\<close>, which is also the answer to a completed transfer
  with a wrong digest.  The bytes received stay in the file.
\<close>

theorem put_truncated_decided_by_digest:
  assumes "py_int file_size = Inr n" "n \<le> ssize_t_max"
      and "storage st (STORAGE_DIR host port) = None \<or> storage st (STORAGE_DIR host port) = Some Dir"
      and "basename filename \<noteq> []" "basename filename \<noteq> ''.''" "basename filename \<noteq> ''..''"
          "CHR 0x00 \<notin> set (basename filename)" "length (basename filename) \<le> NAME_MAX"
      and "storage st (STORAGE_DIR host port @ ''/'' @ basename filename) \<noteq> Some Dir"
      and "inbound st = chunks @- ([] ## rest)" "\<forall>c\<in>set chunks. c \<noteq> [] \<and> length c \<le> BUFFER_SIZE"
      and "int (length (concat chunks)) < n"
  shows "do_put_handler md5 (STORAGE_DIR host port) [filename, file_size, file_hash] st =
           (Inr (PyStr (if md5 (concat chunks) = file_hash then TRANSFER_SUCCESSFUL_CODE
                        else ''File integrity check failed!'')),
            st\<lparr>inbound := rest, recv_calls := recv_calls st + Suc (length chunks),
               storage := (storage st)(STORAGE_DIR host port \<mapsto> Dir,
                             STORAGE_DIR host port @ ''/'' @ basename filename \<mapsto> File (concat chunks))\<rparr>)"
  using assms by (rule do_put_handler_truncated)

text \<open>Declared size 5, the peer sends \<open>ab\<close> and closes, the hash is not the digest of \<open>ab\<close>.\<close>

theorem put_truncated_decided_by_digest_witness:
  "py_int ''5'' = Inr 5 \<and> (5::int) \<le> ssize_t_max \<and> length (basename ''notes.txt'') \<le> NAME_MAX \<and>
   length ''ab'' \<le> BUFFER_SIZE \<and>
   int (length (concat [''ab''])) < 5 \<and> checksum_digest ''ab'' \<noteq> ''00'' \<and>
   do_put_handler checksum_digest (STORAGE_DIR ''0.0.0.0'' 5000) [''notes.txt'', ''5'', ''00'']
     \<lparr>storage = Map.empty, inbound = ''ab'' ## [] ## sconst [], outbound = [], recv_calls = 0\<rparr> =
   (Inr (PyStr ''File integrity check failed!''),
    \<lparr>storage = [''storage_0.0.0.0_5000'' \<mapsto> Dir, ''storage_0.0.0.0_5000/notes.txt'' \<mapsto> File ''ab''],
     inbound = sconst [], outbound = [], recv_calls = 2\<rparr>)"
  using put_truncated_decided_by_digest [of "''5''" 5
      "\<lparr>storage = Map.empty, inbound = ''ab'' ## [] ## sconst [], outbound = [], recv_calls = 0\<rparr>"
      "''0.0.0.0''" 5000 "''notes.txt''" "[''ab'']" "sconst []" checksum_digest "''00''"]
  by (simp add: py_int_examples basename_examples checksum_digest_examples storage_dir_example
      limits_defs)

text \<open>
  The claim as stated fails: the node at \<open>0.0.0.0:5000\<close> receives a PUT header that
  declares 5 bytes with the digest of \<open>ab\<close> (\<open>c3\<close> for \<open>checksum_digest\<close>), then
  \<open>ab\<close>, then the peer closes.  The node answers \<open>TRANSFER_SUCCESSFUL\<close>; by
  \<open>do_put_handler_truncated\<close> the same happens for every digest function when the header
  carries its digest of \<open>ab\<close>.
\<close>

theorem truncated_put_answers_success:
  "handle checksum_digest ''0.0.0.0'' 5000
     \<lparr>storage = Map.empty,
      inbound = ''<PUT_REQUEST><>notes.txt<>5<>c3'' ## ''ab'' ## [] ## sconst [],
      outbound = [], recv_calls = 0\<rparr> =
   (None,
    \<lparr>storage = [''storage_0.0.0.0_5000'' \<mapsto> Dir, ''storage_0.0.0.0_5000/notes.txt'' \<mapsto> File ''ab''],
     inbound = sconst [], outbound = [''TRANSFER_SUCCESSFUL''], recv_calls = 3\<rparr>) \<and>
   int (length ''ab'') < 5"
proof -
  let ?st = "\<lparr>storage = Map.empty,
      inbound = ''<PUT_REQUEST><>notes.txt<>5<>c3'' ## ''ab'' ## [] ## sconst [],
      outbound = [], recv_calls = 0\<rparr>"
  let ?st1 = "\<lparr>storage = Map.empty, inbound = ''ab'' ## [] ## sconst [], outbound = [], recv_calls = Suc 0\<rparr>"
  have rcv: "recv BUFFER_SIZE ?st = (''<PUT_REQUEST><>notes.txt<>5<>c3'', ?st1)"
    by (rule recv_header) (simp add: BUFFER_SIZE_def)
  have hdr: "py_split SEPARATOR ''<PUT_REQUEST><>notes.txt<>5<>c3'' = PUT_REQUEST # [''notes.txt'', ''5'', ''c3'']"
    by (simp add: py_split_header_examples)
  have put: "do_put_handler checksum_digest (STORAGE_DIR ''0.0.0.0'' 5000) [''notes.txt'', ''5'', ''c3''] ?st1 =
      (Inr (PyStr TRANSFER_SUCCESSFUL_CODE),
       \<lparr>storage = [''storage_0.0.0.0_5000'' \<mapsto> Dir, ''storage_0.0.0.0_5000/notes.txt'' \<mapsto> File ''ab''],
        inbound = sconst [], outbound = [], recv_calls = 3\<rparr>)"
    using do_put_handler_truncated [of "''5''" 5 ?st1 "''0.0.0.0''" 5000 "''notes.txt''" "[''ab'']"
        "sconst []" checksum_digest "''c3''"]
    by (simp add: py_int_examples basename_examples checksum_digest_examples storage_dir_example
        limits_defs)
  show ?thesis
    unfolding handle_put [OF rcv decode_utf8_header_examples(1) hdr]
    by (simp add: put sendall_def TRANSFER_SUCCESSFUL_CODE_def)
qed

section \<open>Integrity failure\<close>

text \<open>
  C6.  The declared size is a number \<open>n\<close> below \<open>2^63\<close>, the storage directory is
  absent or a directory, the base name can be opened there, and the socket delivers the
  pieces \<open>chunks\<close>, none empty and none longer than one \<open>recv\<close> returns, exactly \<open>n\<close>
  bytes in all, whose digest differs from the expected hash.  Then
  \<open>is_file_integrity_matched\<close> raises (it never returns \<open>False\<close>), the answer of the PUT
  handler is the message of that exception and not \<open>TRANSFER_SUCCESSFUL\<close>, and the file
  stays in the storage directory with the bytes received.
\<close>

theorem put_wrong_digest_reports_error_and_keeps_file:
  assumes "py_int file_size = Inr n" "n \<le> ssize_t_max"
      and "storage st (STORAGE_DIR host port) = None \<or> storage st (STORAGE_DIR host port) = Some Dir"
      and "basename filename \<noteq> []" "basename filename \<noteq> ''.''" "basename filename \<noteq> ''..''"
          "CHR 0x00 \<notin> set (basename filename)" "length (basename filename) \<le> NAME_MAX"
      and "storage st (STORAGE_DIR host port @ ''/'' @ basename filename) \<noteq> Some Dir"
      and "inbound st = chunks @- rest" "\<forall>c\<in>set chunks. c \<noteq> [] \<and> length c \<le> BUFFER_SIZE"
      and "int (length (concat chunks)) = n"
      and "md5 (concat chunks) \<noteq> file_hash"
  shows "fst (do_put_handler md5 (STORAGE_DIR host port) [filename, file_size, file_hash] st) =
           Inr (PyStr ''File integrity check failed!'') \<and>
         ''File integrity check failed!'' \<noteq> TRANSFER_SUCCESSFUL_CODE \<and>
         storage (snd (do_put_handler md5 (STORAGE_DIR host port) [filename, file_size, file_hash] st))
           (STORAGE_DIR host port @ ''/'' @ basename filename) = Some (File (concat chunks)) \<and>
         is_file_integrity_matched md5
           (storage (snd (do_put_handler md5 (STORAGE_DIR host port) [filename, file_size, file_hash] st)))
           (STORAGE_DIR host port @ ''/'' @ basename filename) file_hash =
           Inl (PyExn ''Exception'' ''File integrity check failed!'') \<and>
         is_file_integrity_matched md5 fs filepath recvd_hash \<noteq> Inr False"
proof -
  let ?p = "STORAGE_DIR host port @ ''/'' @ basename filename"
  let ?st' = "st\<lparr>inbound := rest, recv_calls := recv_calls st + length chunks,
               storage := (storage st)(STORAGE_DIR host port \<mapsto> Dir, ?p \<mapsto> File (concat chunks))\<rparr>"
  have run: "do_put_handler md5 (STORAGE_DIR host port) [filename, file_size, file_hash] st =
               (Inr (PyStr ''File integrity check failed!''), ?st')"
    using do_put_handler_complete [OF assms(1-12), of md5 file_hash] assms(13) by simp
  have kept: "storage ?st' ?p = Some (File (concat chunks))"
    by simp
  have "is_file_integrity_matched md5 (storage ?st') ?p file_hash =
          Inl (PyExn ''Exception'' ''File integrity check failed!'')"
    using assms(13) integrity_File [of "storage ?st'" ?p "concat chunks" md5 file_hash, OF kept]
    by simp
  with run kept show ?thesis
    by (simp add: TRANSFER_SUCCESSFUL_CODE_def integrity_never_False)
qed

text \<open>Declared size 3, the reads deliver \<open>abc\<close>, the hash is \<open>00\<close> instead of \<open>26\<close>.\<close>

theorem put_wrong_digest_witness:
  "py_int ''3'' = Inr 3 \<and> (3::int) \<le> ssize_t_max \<and> length (basename ''report.txt'') \<le> NAME_MAX \<and>
   length ''abc'' \<le> BUFFER_SIZE \<and>
   int (length (concat [''abc''])) = 3 \<and> checksum_digest (concat [''abc'']) \<noteq> ''00'' \<and>
   fst (do_put_handler checksum_digest (STORAGE_DIR ''0.0.0.0'' 5000) [''report.txt'', ''3'', ''00'']
          \<lparr>storage = Map.empty, inbound = ''abc'' ## sconst [], outbound = [], recv_calls = 0\<rparr>) =
     Inr (PyStr ''File integrity check failed!'') \<and>
   storage (snd (do_put_handler checksum_digest (STORAGE_DIR ''0.0.0.0'' 5000) [''report.txt'', ''3'', ''00'']
          \<lparr>storage = Map.empty, inbound = ''abc'' ## sconst [], outbound = [], recv_calls = 0\<rparr>))
     ''storage_0.0.0.0_5000/report.txt'' = Some (File ''abc'')"
  using put_wrong_digest_reports_error_and_keeps_file [of "''3''" 3
      "\<lparr>storage = Map.empty, inbound = ''abc'' ## sconst [], outbound = [], recv_calls = 0\<rparr>"
      "''0.0.0.0''" 5000 "''report.txt''" "[''abc'']" "sconst []" checksum_digest "''00''"]
  by (simp add: py_int_examples basename_examples checksum_digest_examples storage_dir_example
      limits_defs)

section \<open>The destination path\<close>



section \<open>The dispatcher\<close>

text \<open>
  C5.  Two malformed PUT requests.  With two arguments the unpacking raises
  \<open>ValueError\<close>; with a size that is not a number \<open>int\<close> raises \<open>ValueError\<close>.  Both
  statements stand before the \<open>try\<close> of \<open>do_put_handler\<close>, and \<open>handle\<close> has no
  \<open>try\<close> of its own: the exception leaves \<open>handle\<close> and nothing is sent to the peer,
  although the \<open>try\<close> block with its default \<open>Operation failed.\<close> is there to answer
  every failure with a message.
\<close>

theorem malformed_put_raises_without_response:
  "handle checksum_digest ''0.0.0.0'' 5000
     \<lparr>storage = Map.empty, inbound = ''<PUT_REQUEST><>report.txt<>11'' ## sconst [],
      outbound = [], recv_calls = 0\<rparr> =
   (Some (PyExn ''ValueError'' ''not enough values to unpack (expected 3, got 2)''),
    \<lparr>storage = Map.empty, inbound = sconst [], outbound = [], recv_calls = 1\<rparr>) \<and>
   handle checksum_digest ''0.0.0.0'' 5000
     \<lparr>storage = Map.empty, inbound = ''<PUT_REQUEST><>report.txt<>abc<>00'' ## sconst [],
      outbound = [], recv_calls = 0\<rparr> =
   (Some (PyExn ''ValueError'' (''invalid literal for int() with base 10: '' @ [CHR 0x27] @ ''abc'' @ [CHR 0x27])),
    \<lparr>storage = Map.empty, inbound = sconst [], outbound = [], recv_calls = 1\<rparr>)"
proof -
  let ?st = "\<lparr>storage = Map.empty, inbound = ''<PUT_REQUEST><>report.txt<>11'' ## sconst [],
      outbound = [], recv_calls = 0\<rparr>"
  let ?st2 = "\<lparr>storage = Map.empty, inbound = ''<PUT_REQUEST><>report.txt<>abc<>00'' ## sconst [],
      outbound = [], recv_calls = 0\<rparr>"
  let ?st' = "\<lparr>storage = Map.empty, inbound = sconst [], outbound = [], recv_calls = Suc 0\<rparr>"
  have r1: "recv BUFFER_SIZE ?st = (''<PUT_REQUEST><>report.txt<>11'', ?st')"
    by (rule recv_header) (simp add: BUFFER_SIZE_def)
  have r2: "recv BUFFER_SIZE ?st2 = (''<PUT_REQUEST><>report.txt<>abc<>00'', ?st')"
    by (rule recv_header) (simp add: BUFFER_SIZE_def)
  have h1: "py_split SEPARATOR ''<PUT_REQUEST><>report.txt<>11'' = PUT_REQUEST # [''report.txt'', ''11'']"
    by (simp add: py_split_header_examples)
  have h2: "py_split SEPARATOR ''<PUT_REQUEST><>report.txt<>abc<>00'' =
              PUT_REQUEST # [''report.txt'', ''abc'', ''00'']"
    by (simp add: py_split_header_examples)
  have "handle checksum_digest ''0.0.0.0'' 5000 ?st =
          (Some (PyExn ''ValueError'' ''not enough values to unpack (expected 3, got 2)''),
           \<lparr>storage = Map.empty, inbound = sconst [], outbound = [], recv_calls = 1\<rparr>)"
    unfolding handle_put [OF r1 decode_utf8_header_examples(2) h1]
    by (simp add: do_put_handler_def unpack_error_3_2)
  moreover have "handle checksum_digest ''0.0.0.0'' 5000 ?st2 =
          (Some (PyExn ''ValueError'' (''invalid literal for int() with base 10: '' @ [CHR 0x27] @ ''abc'' @ [CHR 0x27])),
           \<lparr>storage = Map.empty, inbound = sconst [], outbound = [], recv_calls = 1\<rparr>)"
    unfolding handle_put [OF r2 decode_utf8_header_examples(3) h2]
    by (simp add: do_put_handler_def py_int_abc int_error_def)
  ultimately show ?thesis by simp
qed

text \<open>
  A request that is not UTF-8 fails earlier still, in \<open>decode\<close>: the exception leaves
  \<open>handle\<close> and nothing is sent.
\<close>

lemma undecodable_request_raises_without_response:
  "handle md5 host port
     \<lparr>storage = fs, inbound = [CHR 0xFF] ## rest, outbound = sent, recv_calls = k\<rparr> =
   (Some (PyExn ''UnicodeDecodeError'' ''utf-8 codec cannot decode the data''),
    \<lparr>storage = fs, inbound = rest, outbound = sent, recv_calls = Suc k\<rparr>)"
  by (simp add: handle_def recv_def BUFFER_SIZE_def decode_utf8_invalid_example)



text \<open>
  C9.  On \<open><GET_REQUEST><>report.txt\<close> the handler \<open>do_get_handler\<close> returns \<open>None\<close>,
  \<open>bytes(None, "utf-8")\<close> raises \<open>TypeError\<close>, and \<open>handle\<close> ends with that exception:
  nothing is sent, whether or not the file is in the storage directory.
\<close>

theorem get_request_raises_type_error:
  "handle md5 host port
     \<lparr>storage = fs, inbound = ''<GET_REQUEST><>report.txt'' ## rest, outbound = sent, recv_calls = k\<rparr> =
   (Some (PyExn ''TypeError'' ''encoding without a string argument''),
    \<lparr>storage = fs, inbound = rest, outbound = sent, recv_calls = Suc k\<rparr>)"
proof -
  let ?st = "\<lparr>storage = fs, inbound = ''<GET_REQUEST><>report.txt'' ## rest, outbound = sent, recv_calls = k\<rparr>"
  have rcv: "recv BUFFER_SIZE ?st =
      (''<GET_REQUEST><>report.txt'', \<lparr>storage = fs, inbound = rest, outbound = sent, recv_calls = Suc k\<rparr>)"
    by (rule recv_header) (simp add: BUFFER_SIZE_def)
  have "py_split SEPARATOR ''<GET_REQUEST><>report.txt'' = GET_REQUEST # [''report.txt'']"
    by (simp add: py_split_header_examples)
  from handle_request [OF rcv decode_utf8_header_examples(5) this] show ?thesis
    by (simp add: dispatch_def do_get_handler_def)
qed

section \<open>Termination of the receiving loop\<close>

lemma receive_loop_numeral:
  "receive_loop (numeral k) p s t st =
     (case recv BUFFER_SIZE st of
        (bytes_read, st1) \<Rightarrow>
          if bytes_read = [] then (t, st1)
          else let total' = t + length bytes_read;
                   st2 = st1\<lparr>storage := write_file p bytes_read (storage st1)\<rparr>
               in if int total' = s then (total', st2)
                  else receive_loop (pred_numeral k) p s total' st2)"
  using receive_loop.simps(2) [of "pred_numeral k" p s t st] by (simp only: numeral_eq_Suc)

text \<open>
  Declared size 3 and a peer that sends \<open>ab\<close> for ever: the count goes 2, 4, 6 and never
  equals 3; the loop stops after its third read.
\<close>

lemma receive_loop_overshoot_example:
  "receive_loop (nat 3) ''d/f'' 3 0
     \<lparr>storage = [''d/f'' \<mapsto> File []], inbound = sconst ''ab'', outbound = [], recv_calls = 0\<rparr> =
   (6, \<lparr>storage = [''d/f'' \<mapsto> File ''ababab''], inbound = sconst ''ab'', outbound = [], recv_calls = 3\<rparr>)"
  by (simp add: receive_loop_numeral recv_def BUFFER_SIZE_def write_file_upd)

text \<open>
  C10.  The receiving loop is a recursion on \<open>range(file_size)\<close>: it is total, and it calls
  \<open>recv\<close> at most \<open>file_size\<close> times (not at all for a negative size), for every stream
  of reads, also one that never ends and whose byte count passes the declared size
  without being equal to it.  The same bound holds for the whole transfer in
  \<open>do_put_handler\<close> and in \<open>receive_file_from_sock\<close>.
\<close>

theorem receive_stops_within_declared_size:
  "recv_calls (snd (receive_loop (nat file_size) filepath file_size 0 st)) \<le> recv_calls st + nat file_size \<and>
   recv_calls (snd (put_transfer md5 storage_dir filename file_size file_hash st)) \<le> recv_calls st + nat file_size \<and>
   recv_calls (snd (receive_file_from_sock dest_filepath file_size st)) \<le> recv_calls st + nat file_size"
  by (simp add: receive_loop_recv_calls put_transfer_recv_calls receive_file_from_sock_recv_calls)

section \<open>The empty file\<close>

text \<open>
  C4.  Receiving a file of declared size 0 with the digest of the empty content succeeds
  without a single read.  Sending an empty file does not report success: the loop of
  \<open>send_file\<close> has no iteration, so \<open>received_response\<close> keeps its initial value
  \<open>(NOTIFY_FAILURE, "Operation failed!")\<close> although the header was sent and there is
  nothing more to send.
\<close>

theorem empty_file_received_but_send_reports_failure:
  "do_put_handler md5 (STORAGE_DIR host port) [''empty.txt'', ''0'', md5 []]
     \<lparr>storage = Map.empty, inbound = rest, outbound = sent, recv_calls = k\<rparr> =
   (Inr (PyStr TRANSFER_SUCCESSFUL_CODE),
    \<lparr>storage = [STORAGE_DIR host port \<mapsto> Dir, STORAGE_DIR host port @ ''/empty.txt'' \<mapsto> File []],
     inbound = rest, outbound = sent, recv_calls = k\<rparr>) \<and>
   send_file md5 ''empty.txt'' False
     \<lparr>storage = [''empty.txt'' \<mapsto> File []], inbound = rest, outbound = [], recv_calls = k\<rparr> =
   (Inr (Tuple NOTIFY_FAILURE ''Operation failed!''),
    \<lparr>storage = [''empty.txt'' \<mapsto> File []], inbound = rest,
     outbound = [''<PUT_REQUEST><>empty.txt<>0<>'' @ md5 []], recv_calls = k\<rparr>)"
proof -
  let ?st = "\<lparr>storage = Map.empty, inbound = rest, outbound = sent, recv_calls = k\<rparr>"
  have "do_put_handler md5 (STORAGE_DIR host port) [''empty.txt'', ''0'', md5 []] ?st =
          (Inr (PyStr TRANSFER_SUCCESSFUL_CODE),
           \<lparr>storage = [STORAGE_DIR host port \<mapsto> Dir, STORAGE_DIR host port @ ''/empty.txt'' \<mapsto> File []],
            inbound = rest, outbound = sent, recv_calls = k\<rparr>)"
    using do_put_handler_complete [of "''0''" 0 ?st host port "''empty.txt''" "[]" rest md5 "md5 []"]
    by (simp add: py_int_examples basename_def limits_defs)
  moreover have "send_file md5 ''empty.txt'' False
     \<lparr>storage = [''empty.txt'' \<mapsto> File []], inbound = rest, outbound = [], recv_calls = k\<rparr> =
   (Inr (Tuple NOTIFY_FAILURE ''Operation failed!''),
    \<lparr>storage = [''empty.txt'' \<mapsto> File []], inbound = rest,
     outbound = [''<PUT_REQUEST><>empty.txt<>0<>'' @ md5 []], recv_calls = k\<rparr>)"
    by (simp add: send_file_def getsize_def calc_file_md5_def read_file_def sendall_def basename_def
        str_nat_numeral digit_char_simps PUT_REQUEST_def SEPARATOR_def)
  ultimately show ?thesis by simp
qed

lemma send_loop_numeral:
  "send_loop (numeral k) src rest file_size t resp st =
     (let bytes_read = take BUFFER_SIZE rest;
          total' = t + length bytes_read
      in if bytes_read = [] then (resp, st)
         else let st1 = sendall bytes_read st
              in if total' = file_size
                 then (Tuple NOTIFY_SUCCESS (''File '' @ src @ '' sent.''), st1)
                 else send_loop (pred_numeral k) src (drop BUFFER_SIZE rest) file_size total' resp st1)"
  using send_loop.simps(2) [of "pred_numeral k" src rest file_size t resp st]
  by (simp only: numeral_eq_Suc)

text \<open>For contrast, a file of three bytes: the loop runs and sets the success response.\<close>

lemma send_file_three_bytes_example:
  "send_file md5 ''abc.txt'' False
     \<lparr>storage = [''abc.txt'' \<mapsto> File ''abc''], inbound = rest, outbound = [], recv_calls = k\<rparr> =
   (Inr (Tuple NOTIFY_SUCCESS ''File abc.txt sent.''),
    \<lparr>storage = [''abc.txt'' \<mapsto> File ''abc''], inbound = rest,
     outbound = [''<PUT_REQUEST><>abc.txt<>3<>'' @ md5 ''abc'', ''abc''], recv_calls = k\<rparr>)"
  by (simp add: send_file_def getsize_def calc_file_md5_def read_file_def sendall_def basename_def
      str_nat_numeral digit_char_simps PUT_REQUEST_def SEPARATOR_def NOTIFY_SUCCESS_def send_loop_numeral
      BUFFER_SIZE_def Let_def flip: numeral_3_eq_3)

end
